theory Spec2Isabelle
  imports Main "HOL-Library.AList" "HOL-Library.Multiset"
begin

section \<open>The database schema\<close>

text \<open>
  The migration declares two enum types, six tables, two role predicates, the row-level
  security policies of every table, the provisioning trigger on the identity table and the
  generic \<^verbatim>\<open>updated_at\<close> trigger. Tables are lists of rows in insertion order. A
  nullable column is an \<open>option\<close> (\<open>None\<close> is SQL's NULL); a column declared
  \<^verbatim>\<open>NOT NULL\<close> or \<^verbatim>\<open>PRIMARY KEY\<close> is a plain value. Identifiers and instants are opaque
  numbers; a \<^verbatim>\<open>DECIMAL(10,2)\<close> amount is its number of hundredths.
\<close>

type_synonym uuid = nat
type_synonym timestamptz = int
type_synonym sql_text = string
type_synonym decimal = int

datatype user_role = admin | staff

datatype order_status = received | in_progress | ready | delivered | cancelled

datatype sql_error =
  unique_violation | not_null_violation | foreign_key_violation | insufficient_privilege
| datatype_mismatch

text \<open>
  Every table that carries an \<^verbatim>\<open>updated_at\<close> column extends one parent record, so that
  the trigger function, which the migration declares once for all of them, is one function
  here too.
\<close>

record timestamped =
  updated_at :: "timestamptz option"

text \<open>
  The identity table \<^verbatim>\<open>auth.users\<close> belongs to the authentication provider; the migration
  reads three of its columns. \<^verbatim>\<open>raw_user_meta_data\<close> is a JSON object, kept as the list of
  its text-valued keys.
\<close>

record users_row =
  users_id :: uuid
  users_email :: "sql_text option"
  users_raw_user_meta_data :: "(sql_text \<times> sql_text) list"

record profiles_row = timestamped +
  profiles_id :: uuid
  profiles_email :: sql_text
  profiles_full_name :: "sql_text option"
  profiles_avatar_url :: "sql_text option"
  profiles_created_at :: "timestamptz option"

record user_roles_row =
  user_roles_id :: uuid
  user_roles_user_id :: "uuid option"
  user_roles_role :: user_role
  user_roles_created_at :: "timestamptz option"

record menu_categories_row = timestamped +
  menu_categories_id :: uuid
  menu_categories_name :: sql_text
  menu_categories_description :: "sql_text option"
  menu_categories_display_order :: "int option"
  menu_categories_is_active :: "bool option"
  menu_categories_created_at :: "timestamptz option"

record menu_items_row = timestamped +
  menu_items_id :: uuid
  menu_items_category_id :: "uuid option"
  menu_items_name :: sql_text
  menu_items_description :: "sql_text option"
  menu_items_price :: decimal
  menu_items_image_url :: "sql_text option"
  menu_items_display_order :: "int option"
  menu_items_is_active :: "bool option"
  menu_items_is_available :: "bool option"
  menu_items_allergens :: "sql_text list option"
  menu_items_created_at :: "timestamptz option"

record orders_row = timestamped +
  orders_id :: uuid
  orders_customer_name :: "sql_text option"
  orders_customer_email :: "sql_text option"
  orders_customer_phone :: "sql_text option"
  orders_customer_notes :: "sql_text option"
  orders_total_amount :: decimal
  orders_status :: "order_status option"
  orders_order_type :: "sql_text option"
  orders_table_number :: "int option"
  orders_estimated_ready_time :: "timestamptz option"
  orders_created_at :: "timestamptz option"

record order_items_row =
  order_items_id :: uuid
  order_items_order_id :: "uuid option"
  order_items_menu_item_id :: "uuid option"
  order_items_quantity :: int
  order_items_unit_price :: decimal
  order_items_special_instructions :: "sql_text option"
  order_items_created_at :: "timestamptz option"

record database =
  auth_users :: "users_row list"
  profiles :: "profiles_row list"
  user_roles :: "user_roles_row list"
  menu_categories :: "menu_categories_row list"
  menu_items :: "menu_items_row list"
  orders :: "orders_row list"
  order_items :: "order_items_row list"

definition empty_database :: database where
  "empty_database =
     \<lparr>auth_users = [], profiles = [], user_roles = [], menu_categories = [],
      menu_items = [], orders = [], order_items = []\<rparr>"

subsection \<open>Three-valued conditions\<close>

text \<open>
  A comparison with NULL is NULL, and a row passes a \<^verbatim>\<open>WHERE\<close> clause or a policy only
  where the condition is true. \<open>sql_eq\<close> and \<open>sql_and\<close> are SQL's \<^verbatim>\<open>=\<close> and \<^verbatim>\<open>AND\<close>.
\<close>

definition sql_eq :: "'a option \<Rightarrow> 'a option \<Rightarrow> bool option" where
  "sql_eq a b = (case a of None \<Rightarrow> None | Some x \<Rightarrow> (case b of None \<Rightarrow> None | Some y \<Rightarrow> Some (x = y)))"

definition sql_and :: "bool option \<Rightarrow> bool option \<Rightarrow> bool option" where
  "sql_and a b =
     (if a = Some False \<or> b = Some False then Some False
      else if a = Some True \<and> b = Some True then Some True
      else None)"

subsection \<open>Constraints\<close>

text \<open>
  A foreign key that is NULL refers to nothing. \<open>references ref keys\<close> says that \<open>ref\<close>
  points at one of \<open>keys\<close>; \<open>fk_ok\<close> is the constraint itself.
\<close>

definition references :: "uuid option \<Rightarrow> uuid list \<Rightarrow> bool" where
  "references ref keys = (case ref of None \<Rightarrow> False | Some k \<Rightarrow> k \<in> set keys)"

definition fk_ok :: "uuid option \<Rightarrow> uuid list \<Rightarrow> bool" where
  "fk_ok ref keys = (case ref of None \<Rightarrow> True | Some k \<Rightarrow> k \<in> set keys)"

text \<open>
  The primary keys, and \<^verbatim>\<open>UNIQUE(user_id, role)\<close>, in which rows with a NULL
  \<^verbatim>\<open>user_id\<close> never collide.
\<close>

definition unique_ok :: "database \<Rightarrow> bool" where
  "unique_ok db =
     (distinct (map users_id (auth_users db)) \<and>
      distinct (map profiles_id (profiles db)) \<and>
      distinct (map user_roles_id (user_roles db)) \<and>
      distinct (map (\<lambda>r. (user_roles_user_id r, user_roles_role r))
                 (filter (\<lambda>r. user_roles_user_id r \<noteq> None) (user_roles db))) \<and>
      distinct (map menu_categories_id (menu_categories db)) \<and>
      distinct (map menu_items_id (menu_items db)) \<and>
      distinct (map orders_id (orders db)) \<and>
      distinct (map order_items_id (order_items db)))"

definition foreign_keys_ok :: "database \<Rightarrow> bool" where
  "foreign_keys_ok db =
     (list_all (\<lambda>r. profiles_id r \<in> set (map users_id (auth_users db))) (profiles db) \<and>
      list_all (\<lambda>r. fk_ok (user_roles_user_id r) (map users_id (auth_users db))) (user_roles db) \<and>
      list_all (\<lambda>r. fk_ok (menu_items_category_id r) (map menu_categories_id (menu_categories db)))
        (menu_items db) \<and>
      list_all (\<lambda>r. fk_ok (order_items_order_id r) (map orders_id (orders db))) (order_items db) \<and>
      list_all (\<lambda>r. fk_ok (order_items_menu_item_id r) (map menu_items_id (menu_items db)))
        (order_items db))"

text \<open>
  A statement that inserts or updates rows commits only when the constraints hold of the
  state it leaves; otherwise it fails and changes nothing.
\<close>

definition check_constraints :: "database \<Rightarrow> sql_error + database" where
  "check_constraints db =
     (if \<not> unique_ok db then Inl unique_violation
      else if \<not> foreign_keys_ok db then Inl foreign_key_violation
      else Inr db)"

text \<open>The state a statement leaves: a failed statement is rolled back.\<close>

definition state_after :: "database \<Rightarrow> sql_error + database \<Rightarrow> database" where
  "state_after db res = (case res of Inl e \<Rightarrow> db | Inr db' \<Rightarrow> db')"

section \<open>Role predicates\<close>

text \<open>
  \<^verbatim>\<open>has_role\<close> and \<^verbatim>\<open>is_admin_or_staff\<close> are \<^verbatim>\<open>SECURITY DEFINER\<close>: they read the
  whole \<^verbatim>\<open>user_roles\<close> table, whoever calls. Each is an \<^verbatim>\<open>EXISTS\<close> over the rows whose
  condition is true; a NULL caller matches no row.
\<close>

definition has_role :: "user_roles_row list \<Rightarrow> uuid option \<Rightarrow> user_role \<Rightarrow> bool" where
  "has_role roles user_id' role' =
     list_ex (\<lambda>r. sql_and (sql_eq (user_roles_user_id r) user_id')
                          (Some (user_roles_role r = role')) = Some True) roles"

definition is_admin_or_staff :: "user_roles_row list \<Rightarrow> uuid option \<Rightarrow> bool" where
  "is_admin_or_staff roles user_id' =
     list_ex (\<lambda>r. sql_and (sql_eq (user_roles_user_id r) user_id')
                          (Some (user_roles_role r \<in> set [admin, staff])) = Some True) roles"

section \<open>Row-level security\<close>

text \<open>
  Row-level security is enabled on all six tables. A policy names the command it is for
  (\<open>None\<close> is \<^verbatim>\<open>FOR ALL\<close>) and its \<^verbatim>\<open>USING\<close> expression, which reads the role table,
  the caller (\<^verbatim>\<open>auth.uid()\<close>, NULL for an unauthenticated caller) and the row. No policy of
  the migration has a \<^verbatim>\<open>WITH CHECK\<close> clause, so the \<^verbatim>\<open>USING\<close> expression is also the
  check on a row written. All policies are permissive: a row passes a command when the
  expression of one applicable policy is true, and with no applicable policy nothing passes.
\<close>

datatype command = SELECT | INSERT | UPDATE | DELETE

datatype 'row policy =
  Policy (policy_name: string) (policy_for: "command option")
    (policy_using: "user_roles_row list \<Rightarrow> uuid option \<Rightarrow> 'row \<Rightarrow> bool option")

definition policy_applies :: "'row policy \<Rightarrow> command \<Rightarrow> bool" where
  "policy_applies p c = (policy_for p = None \<or> policy_for p = Some c)"

definition rls_permits ::
  "'row policy list \<Rightarrow> command \<Rightarrow> user_roles_row list \<Rightarrow> uuid option \<Rightarrow> 'row \<Rightarrow> bool" where
  "rls_permits ps c roles uid r =
     list_ex (\<lambda>p. policy_applies p c \<and> policy_using p roles uid r = Some True) ps"

definition profiles_policies :: "profiles_row policy list" where
  "profiles_policies =
     [Policy ''Users can view own profile'' (Some SELECT)
        (\<lambda>roles uid r. sql_eq uid (Some (profiles_id r))),
      Policy ''Users can update own profile'' (Some UPDATE)
        (\<lambda>roles uid r. sql_eq uid (Some (profiles_id r)))]"

definition user_roles_policies :: "user_roles_row policy list" where
  "user_roles_policies =
     [Policy ''Admins can manage all user roles'' None
        (\<lambda>roles uid r. Some (has_role roles uid admin)),
      Policy ''Users can view own roles'' (Some SELECT)
        (\<lambda>roles uid r. sql_eq uid (user_roles_user_id r))]"

definition menu_categories_policies :: "menu_categories_row policy list" where
  "menu_categories_policies =
     [Policy ''Admin and staff can manage categories'' None
        (\<lambda>roles uid r. Some (is_admin_or_staff roles uid)),
      Policy ''Public can view active categories'' (Some SELECT)
        (\<lambda>roles uid r. sql_eq (menu_categories_is_active r) (Some True))]"

definition menu_items_policies :: "menu_items_row policy list" where
  "menu_items_policies =
     [Policy ''Admin and staff can manage menu items'' None
        (\<lambda>roles uid r. Some (is_admin_or_staff roles uid)),
      Policy ''Public can view available items'' (Some SELECT)
        (\<lambda>roles uid r. sql_and (sql_eq (menu_items_is_active r) (Some True))
                               (sql_eq (menu_items_is_available r) (Some True)))]"

definition orders_policies :: "orders_row policy list" where
  "orders_policies =
     [Policy ''Admin and staff can manage orders'' None
        (\<lambda>roles uid r. Some (is_admin_or_staff roles uid))]"

definition order_items_policies :: "order_items_row policy list" where
  "order_items_policies =
     [Policy ''Admin and staff can manage order items'' None
        (\<lambda>roles uid r. Some (is_admin_or_staff roles uid))]"

subsection \<open>Statements under row-level security\<close>

text \<open>
  A \<^verbatim>\<open>SELECT\<close> returns the rows that pass the policies for \<^verbatim>\<open>SELECT\<close>. An
  \<^verbatim>\<open>UPDATE\<close> or \<^verbatim>\<open>DELETE\<close> with a \<^verbatim>\<open>WHERE\<close> clause reads the rows it writes, so it
  touches the rows that satisfy the clause and pass the policies for \<^verbatim>\<open>SELECT\<close> and for
  the command; the others are skipped silently. A row written by \<^verbatim>\<open>INSERT\<close> or
  \<^verbatim>\<open>UPDATE\<close> must pass the check of the command, or the statement fails.
\<close>

definition rls_select ::
  "'row policy list \<Rightarrow> user_roles_row list \<Rightarrow> uuid option \<Rightarrow> 'row list \<Rightarrow> 'row list" where
  "rls_select ps roles uid rows = filter (rls_permits ps SELECT roles uid) rows"

definition rls_targets ::
  "'row policy list \<Rightarrow> command \<Rightarrow> user_roles_row list \<Rightarrow> uuid option \<Rightarrow> ('row \<Rightarrow> bool) \<Rightarrow>
     'row \<Rightarrow> bool" where
  "rls_targets ps c roles uid wh r =
     (wh r \<and> rls_permits ps SELECT roles uid r \<and> rls_permits ps c roles uid r)"

definition rls_insert ::
  "'row policy list \<Rightarrow> user_roles_row list \<Rightarrow> uuid option \<Rightarrow> 'row \<Rightarrow> 'row list \<Rightarrow>
     sql_error + 'row list" where
  "rls_insert ps roles uid r rows =
     (if rls_permits ps INSERT roles uid r then Inr (rows @ [r]) else Inl insufficient_privilege)"

definition rls_update ::
  "'row policy list \<Rightarrow> user_roles_row list \<Rightarrow> uuid option \<Rightarrow> ('row \<Rightarrow> bool) \<Rightarrow> ('row \<Rightarrow> 'row) \<Rightarrow>
     'row list \<Rightarrow> sql_error + 'row list" where
  "rls_update ps roles uid wh new rows =
     (if list_ex (\<lambda>r. rls_targets ps UPDATE roles uid wh r \<and>
                      \<not> rls_permits ps UPDATE roles uid (new r)) rows
      then Inl insufficient_privilege
      else Inr (map (\<lambda>r. if rls_targets ps UPDATE roles uid wh r then new r else r) rows))"

definition rls_delete ::
  "'row policy list \<Rightarrow> user_roles_row list \<Rightarrow> uuid option \<Rightarrow> ('row \<Rightarrow> bool) \<Rightarrow> 'row list \<Rightarrow>
     'row list" where
  "rls_delete ps roles uid wh rows = filter (\<lambda>r. \<not> rls_targets ps DELETE roles uid wh r) rows"

section \<open>Triggers\<close>

text \<open>
  \<^verbatim>\<open>update_updated_at_column\<close> sets \<^verbatim>\<open>NEW.updated_at = NOW()\<close> and returns \<^verbatim>\<open>NEW\<close>. It
  runs \<^verbatim>\<open>BEFORE UPDATE ... FOR EACH ROW\<close> on \<^verbatim>\<open>profiles\<close>, \<^verbatim>\<open>menu_categories\<close>,
  \<^verbatim>\<open>menu_items\<close> and \<^verbatim>\<open>orders\<close>, after the statement's own assignments.
\<close>

definition update_updated_at_column ::
  "timestamptz \<Rightarrow> 'a timestamped_scheme \<Rightarrow> 'a timestamped_scheme" where
  "update_updated_at_column now NEW = NEW\<lparr>updated_at := Some now\<rparr>"

text \<open>
  The types that meet in the trigger's second insert. A string literal such as
  \<^verbatim>\<open>'admin'\<close> has the type unknown until its context decides; a \<^verbatim>\<open>CASE\<close> takes the
  common type of its results, which for results that are all unknown is \<^verbatim>\<open>text\<close>, and
  there is none for \<^verbatim>\<open>text\<close> and an enum together. A value may be stored in a column
  when it is an unknown literal, which is then read as the column's type, when it has the
  column's type, or when the column is \<^verbatim>\<open>text\<close>; from \<^verbatim>\<open>text\<close> to an enum there is no
  assignment cast.
\<close>

datatype sql_type = type_unknown | type_text | type_user_role

definition case_type :: "sql_type list \<Rightarrow> sql_type option" where
  "case_type results =
     (if list_all (\<lambda>t. t \<noteq> type_user_role) results then Some type_text
      else if list_all (\<lambda>t. t \<noteq> type_text) results then Some type_user_role
      else None)"

definition assignable :: "sql_type \<Rightarrow> sql_type \<Rightarrow> bool" where
  "assignable source column = (source = type_unknown \<or> source = column \<or> column = type_text)"

text \<open>
  \<^verbatim>\<open>handle_new_user\<close> inserts the profile and then the role assignment of a new identity.
  It runs after the identity's row is in \<^verbatim>\<open>auth.users\<close>, so the count it reads includes
  that row. It is \<^verbatim>\<open>SECURITY DEFINER\<close>, so no policy stands in the way of its inserts.
  \<open>rid\<close> is the value \<^verbatim>\<open>gen_random_uuid()\<close> draws for the role assignment's key. The
  role it inserts is written
  \<^verbatim>\<open>CASE WHEN (SELECT COUNT(*) FROM auth.users) = 1 THEN 'admin' ELSE 'staff' END\<close>, a
  \<^verbatim>\<open>CASE\<close> of two string literals, for the column \<^verbatim>\<open>role user_role\<close>; the statement is
  analysed when it is first run, after the profile's insert. A failed insert aborts the
  transaction of the identity's creation.
\<close>

definition handle_new_user ::
  "database \<Rightarrow> users_row \<Rightarrow> timestamptz \<Rightarrow> uuid \<Rightarrow> sql_error + database" where
  "handle_new_user db NEW now rid =
     (case users_email NEW of
        None \<Rightarrow> Inl not_null_violation
      | Some email \<Rightarrow>
          (case check_constraints
                  (db\<lparr>profiles := profiles db @
                        [\<lparr>updated_at = Some now, profiles_id = users_id NEW,
                          profiles_email = email,
                          profiles_full_name =
                            map_of (users_raw_user_meta_data NEW) ''full_name'',
                          profiles_avatar_url = None, profiles_created_at = Some now\<rparr>]\<rparr>) of
             Inl e \<Rightarrow> Inl e
           | Inr db1 \<Rightarrow>
               (case case_type [type_unknown, type_unknown] of
                  None \<Rightarrow> Inl datatype_mismatch
                | Some t \<Rightarrow>
                    if \<not> assignable t type_user_role then Inl datatype_mismatch
                    else check_constraints
                           (db1\<lparr>user_roles := user_roles db1 @
                                  [\<lparr>user_roles_id = rid,
                                    user_roles_user_id = Some (users_id NEW),
                                    user_roles_role =
                                      (if length (auth_users db1) = 1 then admin else staff),
                                    user_roles_created_at = Some now\<rparr>]\<rparr>))))"

text \<open>
  \<^verbatim>\<open>on_auth_user_created\<close>: the creation of an identity is the insert of its row into
  \<^verbatim>\<open>auth.users\<close> followed by the trigger, in one transaction.
\<close>

definition on_auth_user_created ::
  "database \<Rightarrow> users_row \<Rightarrow> timestamptz \<Rightarrow> uuid \<Rightarrow> sql_error + database" where
  "on_auth_user_created db NEW now rid =
     (if users_id NEW \<in> set (map users_id (auth_users db)) then Inl unique_violation
      else handle_new_user (db\<lparr>auth_users := auth_users db @ [NEW]\<rparr>) NEW now rid)"

text \<open>A history of identity creations, each in its own transaction.\<close>

fun create_users :: "database \<Rightarrow> (users_row \<times> timestamptz \<times> uuid) list \<Rightarrow> database" where
  "create_users db [] = db"
| "create_users db ((NEW, now, rid) # rest) =
     create_users (state_after db (on_auth_user_created db NEW now rid)) rest"

text \<open>The roles an identity holds, in the order the assignments were inserted.\<close>

definition roles_of :: "database \<Rightarrow> uuid \<Rightarrow> user_role list" where
  "roles_of db u =
     map user_roles_role (filter (\<lambda>r. user_roles_user_id r = Some u) (user_roles db))"

section \<open>Statements\<close>

text \<open>
  The statements a caller \<open>uid\<close> can issue through the row interface. \<open>wh\<close> is the
  \<^verbatim>\<open>WHERE\<close> clause, true or not of a row; \<open>assign\<close> is the \<^verbatim>\<open>SET\<close> clause, the
  row with the new values; \<open>now\<close> is the transaction's \<^verbatim>\<open>NOW()\<close>.
\<close>

subsection \<open>Reads\<close>

definition select_user_roles :: "database \<Rightarrow> uuid option \<Rightarrow> user_roles_row list" where
  "select_user_roles db uid = rls_select user_roles_policies (user_roles db) uid (user_roles db)"

definition select_menu_categories :: "database \<Rightarrow> uuid option \<Rightarrow> menu_categories_row list" where
  "select_menu_categories db uid =
     rls_select menu_categories_policies (user_roles db) uid (menu_categories db)"

definition select_menu_items :: "database \<Rightarrow> uuid option \<Rightarrow> menu_items_row list" where
  "select_menu_items db uid = rls_select menu_items_policies (user_roles db) uid (menu_items db)"

definition select_orders :: "database \<Rightarrow> uuid option \<Rightarrow> orders_row list" where
  "select_orders db uid = rls_select orders_policies (user_roles db) uid (orders db)"

definition select_order_items :: "database \<Rightarrow> uuid option \<Rightarrow> order_items_row list" where
  "select_order_items db uid =
     rls_select order_items_policies (user_roles db) uid (order_items db)"

subsection \<open>Inserts\<close>

text \<open>The row inserted is the row with its column defaults filled in.\<close>

definition insert_user_roles ::
  "database \<Rightarrow> uuid option \<Rightarrow> user_roles_row \<Rightarrow> sql_error + database" where
  "insert_user_roles db uid r =
     (case rls_insert user_roles_policies (user_roles db) uid r (user_roles db) of
        Inl e \<Rightarrow> Inl e
      | Inr rows \<Rightarrow> check_constraints (db\<lparr>user_roles := rows\<rparr>))"

definition insert_orders :: "database \<Rightarrow> uuid option \<Rightarrow> orders_row \<Rightarrow> sql_error + database" where
  "insert_orders db uid r =
     (case rls_insert orders_policies (user_roles db) uid r (orders db) of
        Inl e \<Rightarrow> Inl e
      | Inr rows \<Rightarrow> check_constraints (db\<lparr>orders := rows\<rparr>))"

definition insert_order_items ::
  "database \<Rightarrow> uuid option \<Rightarrow> order_items_row \<Rightarrow> sql_error + database" where
  "insert_order_items db uid r =
     (case rls_insert order_items_policies (user_roles db) uid r (order_items db) of
        Inl e \<Rightarrow> Inl e
      | Inr rows \<Rightarrow> check_constraints (db\<lparr>order_items := rows\<rparr>))"

subsection \<open>Updates\<close>

text \<open>
  On the four tables with an \<^verbatim>\<open>updated_at\<close> trigger the row written is the trigger's
  result on the assigned row; \<^verbatim>\<open>user_roles\<close> and \<^verbatim>\<open>order_items\<close> have no such column
  and no trigger.
\<close>

definition update_profiles ::
  "database \<Rightarrow> uuid option \<Rightarrow> (profiles_row \<Rightarrow> bool) \<Rightarrow> (profiles_row \<Rightarrow> profiles_row) \<Rightarrow>
     timestamptz \<Rightarrow> sql_error + database" where
  "update_profiles db uid wh assign now =
     (case rls_update profiles_policies (user_roles db) uid wh
             (\<lambda>r. update_updated_at_column now (assign r)) (profiles db) of
        Inl e \<Rightarrow> Inl e
      | Inr rows \<Rightarrow> check_constraints (db\<lparr>profiles := rows\<rparr>))"

definition update_menu_categories ::
  "database \<Rightarrow> uuid option \<Rightarrow> (menu_categories_row \<Rightarrow> bool) \<Rightarrow>
     (menu_categories_row \<Rightarrow> menu_categories_row) \<Rightarrow> timestamptz \<Rightarrow> sql_error + database" where
  "update_menu_categories db uid wh assign now =
     (case rls_update menu_categories_policies (user_roles db) uid wh
             (\<lambda>r. update_updated_at_column now (assign r)) (menu_categories db) of
        Inl e \<Rightarrow> Inl e
      | Inr rows \<Rightarrow> check_constraints (db\<lparr>menu_categories := rows\<rparr>))"

definition update_menu_items ::
  "database \<Rightarrow> uuid option \<Rightarrow> (menu_items_row \<Rightarrow> bool) \<Rightarrow> (menu_items_row \<Rightarrow> menu_items_row) \<Rightarrow>
     timestamptz \<Rightarrow> sql_error + database" where
  "update_menu_items db uid wh assign now =
     (case rls_update menu_items_policies (user_roles db) uid wh
             (\<lambda>r. update_updated_at_column now (assign r)) (menu_items db) of
        Inl e \<Rightarrow> Inl e
      | Inr rows \<Rightarrow> check_constraints (db\<lparr>menu_items := rows\<rparr>))"

definition update_orders ::
  "database \<Rightarrow> uuid option \<Rightarrow> (orders_row \<Rightarrow> bool) \<Rightarrow> (orders_row \<Rightarrow> orders_row) \<Rightarrow>
     timestamptz \<Rightarrow> sql_error + database" where
  "update_orders db uid wh assign now =
     (case rls_update orders_policies (user_roles db) uid wh
             (\<lambda>r. update_updated_at_column now (assign r)) (orders db) of
        Inl e \<Rightarrow> Inl e
      | Inr rows \<Rightarrow> check_constraints (db\<lparr>orders := rows\<rparr>))"

definition update_user_roles ::
  "database \<Rightarrow> uuid option \<Rightarrow> (user_roles_row \<Rightarrow> bool) \<Rightarrow> (user_roles_row \<Rightarrow> user_roles_row) \<Rightarrow>
     sql_error + database" where
  "update_user_roles db uid wh assign =
     (case rls_update user_roles_policies (user_roles db) uid wh assign (user_roles db) of
        Inl e \<Rightarrow> Inl e
      | Inr rows \<Rightarrow> check_constraints (db\<lparr>user_roles := rows\<rparr>))"

definition update_order_items ::
  "database \<Rightarrow> uuid option \<Rightarrow> (order_items_row \<Rightarrow> bool) \<Rightarrow> (order_items_row \<Rightarrow> order_items_row) \<Rightarrow>
     sql_error + database" where
  "update_order_items db uid wh assign =
     (case rls_update order_items_policies (user_roles db) uid wh assign (order_items db) of
        Inl e \<Rightarrow> Inl e
      | Inr rows \<Rightarrow> check_constraints (db\<lparr>order_items := rows\<rparr>))"

text \<open>A change of role, \<^verbatim>\<open>UPDATE user_roles SET role = ... WHERE user_id = u\<close>.\<close>

definition update_user_roles_role ::
  "database \<Rightarrow> uuid option \<Rightarrow> uuid \<Rightarrow> user_role \<Rightarrow> sql_error + database" where
  "update_user_roles_role db uid u role' =
     update_user_roles db uid (\<lambda>r. user_roles_user_id r = Some u)
       (\<lambda>r. r\<lparr>user_roles_role := role'\<rparr>)"

text \<open>
  A price change, \<^verbatim>\<open>UPDATE menu_items SET price = ... WHERE ...\<close>, the new price
  computed from the row; the menu management form issues it with \<^verbatim>\<open>WHERE id = i\<close>. A
  history of price changes, by any callers, each in its own transaction.
\<close>

definition update_menu_items_price ::
  "database \<Rightarrow> uuid option \<Rightarrow> (menu_items_row \<Rightarrow> bool) \<Rightarrow> (menu_items_row \<Rightarrow> decimal) \<Rightarrow>
     timestamptz \<Rightarrow> sql_error + database" where
  "update_menu_items_price db uid wh price now =
     update_menu_items db uid wh (\<lambda>r. r\<lparr>menu_items_price := price r\<rparr>) now"

fun update_prices ::
  "database \<Rightarrow>
     (uuid option \<times> (menu_items_row \<Rightarrow> bool) \<times> (menu_items_row \<Rightarrow> decimal) \<times> timestamptz) list \<Rightarrow>
     database" where
  "update_prices db [] = db"
| "update_prices db ((uid, wh, price, now) # rest) =
     update_prices (state_after db (update_menu_items_price db uid wh price now)) rest"

subsection \<open>Deletes and their cascades\<close>

text \<open>
  Three foreign keys of the catalog and order tables are declared \<^verbatim>\<open>ON DELETE CASCADE\<close>,
  \<^verbatim>\<open>menu_items.category_id\<close>, \<^verbatim>\<open>order_items.order_id\<close> and
  \<^verbatim>\<open>order_items.menu_item_id\<close>, as are the two keys into \<^verbatim>\<open>auth.users\<close>. A cascade
  removes the referencing rows whatever the caller's policies, and cascades in turn.
\<close>

definition cascade_menu_items :: "uuid list \<Rightarrow> database \<Rightarrow> database" where
  "cascade_menu_items ids db =
     db\<lparr>order_items :=
          filter (\<lambda>r. \<not> references (order_items_menu_item_id r) ids) (order_items db)\<rparr>"

definition cascade_menu_categories :: "uuid list \<Rightarrow> database \<Rightarrow> database" where
  "cascade_menu_categories ids db =
     cascade_menu_items
       (map menu_items_id (filter (\<lambda>r. references (menu_items_category_id r) ids) (menu_items db)))
       (db\<lparr>menu_items :=
             filter (\<lambda>r. \<not> references (menu_items_category_id r) ids) (menu_items db)\<rparr>)"

definition cascade_orders :: "uuid list \<Rightarrow> database \<Rightarrow> database" where
  "cascade_orders ids db =
     db\<lparr>order_items := filter (\<lambda>r. \<not> references (order_items_order_id r) ids) (order_items db)\<rparr>"

definition delete_menu_categories ::
  "database \<Rightarrow> uuid option \<Rightarrow> (menu_categories_row \<Rightarrow> bool) \<Rightarrow> database" where
  "delete_menu_categories db uid wh =
     cascade_menu_categories
       (map menu_categories_id
          (filter (rls_targets menu_categories_policies DELETE (user_roles db) uid wh)
             (menu_categories db)))
       (db\<lparr>menu_categories :=
             rls_delete menu_categories_policies (user_roles db) uid wh (menu_categories db)\<rparr>)"

definition delete_menu_items ::
  "database \<Rightarrow> uuid option \<Rightarrow> (menu_items_row \<Rightarrow> bool) \<Rightarrow> database" where
  "delete_menu_items db uid wh =
     cascade_menu_items
       (map menu_items_id
          (filter (rls_targets menu_items_policies DELETE (user_roles db) uid wh) (menu_items db)))
       (db\<lparr>menu_items := rls_delete menu_items_policies (user_roles db) uid wh (menu_items db)\<rparr>)"

definition delete_orders :: "database \<Rightarrow> uuid option \<Rightarrow> (orders_row \<Rightarrow> bool) \<Rightarrow> database" where
  "delete_orders db uid wh =
     cascade_orders
       (map orders_id (filter (rls_targets orders_policies DELETE (user_roles db) uid wh) (orders db)))
       (db\<lparr>orders := rls_delete orders_policies (user_roles db) uid wh (orders db)\<rparr>)"

definition delete_order_items ::
  "database \<Rightarrow> uuid option \<Rightarrow> (order_items_row \<Rightarrow> bool) \<Rightarrow> database" where
  "delete_order_items db uid wh =
     db\<lparr>order_items := rls_delete order_items_policies (user_roles db) uid wh (order_items db)\<rparr>"

definition delete_user_roles ::
  "database \<Rightarrow> uuid option \<Rightarrow> (user_roles_row \<Rightarrow> bool) \<Rightarrow> database" where
  "delete_user_roles db uid wh =
     db\<lparr>user_roles := rls_delete user_roles_policies (user_roles db) uid wh (user_roles db)\<rparr>"

text \<open>The deletes by key, \<^verbatim>\<open>DELETE ... WHERE id = i\<close>.\<close>

definition delete_menu_category :: "database \<Rightarrow> uuid option \<Rightarrow> uuid \<Rightarrow> database" where
  "delete_menu_category db uid i = delete_menu_categories db uid (\<lambda>r. menu_categories_id r = i)"

definition delete_order :: "database \<Rightarrow> uuid option \<Rightarrow> uuid \<Rightarrow> database" where
  "delete_order db uid i = delete_orders db uid (\<lambda>r. orders_id r = i)"

section \<open>The presentation layer\<close>

text \<open>
  The two screens of the source, menu management and the dashboard. A JavaScript string is
  the list of its UTF-16 code units; \<open>utf16\<close> writes an ASCII literal as one. Amounts and
  prices are JavaScript numbers, whose arithmetic is left to the type \<open>'n\<close>; counts and
  quantities are integers.
\<close>

type_synonym js_string = "nat list"

definition utf16 :: "string \<Rightarrow> js_string" where
  "utf16 s = map of_char s"

subsection \<open>Calls, responses and effects\<close>

text \<open>
  A call of the data client resolves to an object with a \<^verbatim>\<open>data\<close> field (the count of a
  counting query stands in it too) and an \<^verbatim>\<open>error\<close> field, null on success and an error
  with a message on failure; the handlers that test \<^verbatim>\<open>error\<close> rely on this. \<open>Rejected\<close>
  is the promise that rejects instead.
\<close>

datatype 'd response =
  Resolved (response_data: "'d option") (response_error: "js_string option")
| Rejected js_string

record 'n MenuItem =
  MenuItem_id :: js_string
  MenuItem_name :: js_string
  MenuItem_description :: js_string
  MenuItem_price :: 'n
  MenuItem_image_url :: "js_string option"
  MenuItem_category_id :: "js_string option"
  MenuItem_is_active :: bool
  MenuItem_is_available :: bool
  MenuItem_allergens :: "js_string list option"
  MenuItem_display_order :: int
  MenuItem_menu_categories :: "js_string option"

record MenuCategory =
  MenuCategory_id :: js_string
  MenuCategory_name :: js_string
  MenuCategory_description :: "js_string option"
  MenuCategory_is_active :: bool
  MenuCategory_display_order :: int

record formData =
  formData_name :: js_string
  formData_description :: js_string
  formData_price :: js_string
  formData_image_url :: js_string
  formData_category_id :: js_string
  formData_is_active :: bool
  formData_is_available :: bool
  formData_allergens :: js_string

record 'n itemData_row =
  itemData_name :: js_string
  itemData_description :: js_string
  itemData_price :: 'n
  itemData_image_url :: "js_string option"
  itemData_category_id :: "js_string option"
  itemData_is_active :: bool
  itemData_is_available :: bool
  itemData_allergens :: "js_string list option"

text \<open>The queries the two screens issue; \<open>today\<close> is the date the dashboard filters by.\<close>

datatype 'n request =
  SelectMenuItems
| SelectMenuCategories
| UpdateMenuItem "'n itemData_row" js_string
| InsertMenuItem "'n itemData_row"
| DeleteMenuItem js_string
| UpdateIsAvailable bool js_string
| CountOrders
| CountPendingOrders
| SelectTodayOrders js_string
| SelectTodayOrderItems js_string

datatype variant = default_variant | destructive

record toast =
  toast_title :: js_string
  toast_description :: js_string
  toast_variant :: variant

text \<open>
  A value a property of the dashboard's \<^verbatim>\<open>dishCounts\<close> object can hold: a number, or the
  string that \<^verbatim>\<open>+\<close> makes of a non-number and a number.
\<close>

datatype js_value = Num int | Str js_string

record 'n DashboardStats =
  totalOrders :: nat
  pendingOrders :: nat
  todayRevenue :: 'n
  popularDishes :: "(js_string \<times> js_value) list"

text \<open>What a handler does, in order: the calls it issues, the toasts it shows, the state it sets.\<close>

datatype 'n effect =
  Call "'n request"
| Toast toast
| SetMenuItems "'n MenuItem list"
| SetCategories "MenuCategory list"
| SetLoading bool
| SetDialogOpen bool
| SetEditingItem "'n MenuItem option"
| SetFormData formData
| SetStats "'n DashboardStats"

definition error_toast :: "js_string \<Rightarrow> toast" where
  "error_toast description =
     \<lparr>toast_title = utf16 ''Error'', toast_description = description,
      toast_variant = destructive\<rparr>"

definition success_toast :: "js_string \<Rightarrow> toast" where
  "success_toast description =
     \<lparr>toast_title = utf16 ''Success'', toast_description = description,
      toast_variant = default_variant\<rparr>"

subsection \<open>Menu management\<close>

text \<open>
  \<^verbatim>\<open>fetchMenuData\<close> issues both queries at once (\<^verbatim>\<open>Promise.all\<close>) and looks at the
  responses when both are in: a rejected promise or an \<^verbatim>\<open>error\<close> field throws, the
  \<^verbatim>\<open>catch\<close> shows one toast, and \<^verbatim>\<open>finally\<close> clears the loading flag.
\<close>

definition fetchMenuData ::
  "'n MenuItem list response \<Rightarrow> MenuCategory list response \<Rightarrow> 'n effect list" where
  "fetchMenuData itemsResponse categoriesResponse =
     [Call SelectMenuItems, Call SelectMenuCategories] @
     (case itemsResponse of
        Rejected e \<Rightarrow> [Toast (error_toast (utf16 ''Failed to fetch menu data''))]
      | Resolved items items_error \<Rightarrow>
          (case categoriesResponse of
             Rejected e \<Rightarrow> [Toast (error_toast (utf16 ''Failed to fetch menu data''))]
           | Resolved categories categories_error \<Rightarrow>
               if items_error \<noteq> None \<or> categories_error \<noteq> None
               then [Toast (error_toast (utf16 ''Failed to fetch menu data''))]
               else [SetMenuItems (case items of None \<Rightarrow> [] | Some d \<Rightarrow> d),
                     SetCategories (case categories of None \<Rightarrow> [] | Some d \<Rightarrow> d)])) @
     [SetLoading False]"

text \<open>\<^verbatim>\<open>resetForm\<close> sets the form back to its initial, empty data.\<close>

definition resetForm :: "'n effect list" where
  "resetForm =
     [SetFormData
        \<lparr>formData_name = [], formData_description = [], formData_price = [],
         formData_image_url = [], formData_category_id = [], formData_is_active = True,
         formData_is_available = True, formData_allergens = []\<rparr>]"

text \<open>
  \<^verbatim>\<open>parts.join(sep)\<close>, and \<^verbatim>\<open>handleEdit\<close>, which fills the form from an item: a
  missing image or category becomes the empty string, and the allergens are joined with a
  comma and a space. \<^verbatim>\<open>toString\<close>, of the price, is a parameter.
\<close>

fun join :: "js_string list \<Rightarrow> js_string \<Rightarrow> js_string" where
  "join [] sep = []"
| "join [p] sep = p"
| "join (p # q # ps) sep = p @ sep @ join (q # ps) sep"

definition handleEdit :: "('n \<Rightarrow> js_string) \<Rightarrow> 'n MenuItem \<Rightarrow> 'n effect list" where
  "handleEdit toString item =
     [SetEditingItem (Some item),
      SetFormData
        \<lparr>formData_name = MenuItem_name item,
         formData_description = MenuItem_description item,
         formData_price = toString (MenuItem_price item),
         formData_image_url = (case MenuItem_image_url item of None \<Rightarrow> [] | Some u \<Rightarrow> u),
         formData_category_id = (case MenuItem_category_id item of None \<Rightarrow> [] | Some c \<Rightarrow> c),
         formData_is_active = MenuItem_is_active item,
         formData_is_available = MenuItem_is_available item,
         formData_allergens =
           (case MenuItem_allergens item of None \<Rightarrow> [] | Some a \<Rightarrow> join a (utf16 '', ''))\<rparr>,
      SetDialogOpen True]"

text \<open>
  The form's payload. \<^verbatim>\<open>s || null\<close> is null for the empty string, the only string that is
  falsy, and \<^verbatim>\<open>s\<close> otherwise; \<^verbatim>\<open>parseFloat\<close> is a parameter.
\<close>

definition or_null :: "js_string \<Rightarrow> js_string option" where
  "or_null s = (if s = [] then None else Some s)"

text \<open>
  \<^verbatim>\<open>s.split(',')\<close>, for a separator of one code unit: the pieces between the separators,
  one more than there are separators. \<open>cur\<close> is the piece being read, reversed.
\<close>

fun split_from :: "nat \<Rightarrow> js_string \<Rightarrow> js_string \<Rightarrow> js_string list" where
  "split_from sep cur [] = [rev cur]"
| "split_from sep cur (c # cs) =
     (if c = sep then rev cur # split_from sep [] cs else split_from sep (c # cur) cs)"

definition split_string :: "js_string \<Rightarrow> nat \<Rightarrow> js_string list" where
  "split_string s sep = split_from sep [] s"

text \<open>
  \<^verbatim>\<open>trim\<close> strips the white space and line terminators of ECMAScript from both ends:
  TAB, LF, VT, FF, CR, SP, NBSP, the space separators of Unicode, LS, PS and ZWNBSP.
\<close>

definition is_white_space :: "nat \<Rightarrow> bool" where
  "is_white_space c =
     (c \<in> set [0x09, 0x0A, 0x0B, 0x0C, 0x0D, 0x20, 0xA0, 0x1680, 0x2028, 0x2029, 0x202F, 0x205F,
               0x3000, 0xFEFF] \<or> (0x2000 \<le> c \<and> c \<le> 0x200A))"

definition trim :: "js_string \<Rightarrow> js_string" where
  "trim s = rev (dropWhile is_white_space (rev (dropWhile is_white_space s)))"

definition itemData :: "(js_string \<Rightarrow> 'n) \<Rightarrow> formData \<Rightarrow> 'n itemData_row" where
  "itemData parseFloat fd =
     \<lparr>itemData_name = formData_name fd,
      itemData_description = formData_description fd,
      itemData_price = parseFloat (formData_price fd),
      itemData_image_url = or_null (formData_image_url fd),
      itemData_category_id = or_null (formData_category_id fd),
      itemData_is_active = formData_is_active fd,
      itemData_is_available = formData_is_available fd,
      itemData_allergens =
        (if formData_allergens fd \<noteq> [] then Some (map trim (split_string (formData_allergens fd) 0x2C))
         else None)\<rparr>"

text \<open>
  What follows the call of \<^verbatim>\<open>handleSubmit\<close>, \<^verbatim>\<open>handleDelete\<close> and
  \<^verbatim>\<open>toggleAvailability\<close>: a failure throws into the \<^verbatim>\<open>catch\<close>, which shows the toast
  \<open>failure\<close> makes of the error's message; a success shows its toast, runs \<open>then_do\<close> and
  reloads the menu.
\<close>

definition after_call ::
  "'d response \<Rightarrow> (js_string \<Rightarrow> toast) \<Rightarrow> toast \<Rightarrow> 'n effect list \<Rightarrow> 'n effect list \<Rightarrow>
     'n effect list" where
  "after_call r failure success then_do reload =
     (case r of
        Rejected message \<Rightarrow> [Toast (failure message)]
      | Resolved d err \<Rightarrow>
          (case err of
             Some message \<Rightarrow> [Toast (failure message)]
           | None \<Rightarrow> [Toast success] @ then_do @ reload))"

definition handleSubmit ::
  "(js_string \<Rightarrow> 'n) \<Rightarrow> formData \<Rightarrow> 'n MenuItem option \<Rightarrow> unit response \<Rightarrow>
     'n MenuItem list response \<Rightarrow> MenuCategory list response \<Rightarrow> 'n effect list" where
  "handleSubmit parseFloat fd editingItem r itemsResponse categoriesResponse =
     (case editingItem of
        Some item \<Rightarrow>
          Call (UpdateMenuItem (itemData parseFloat fd) (MenuItem_id item)) #
          after_call r error_toast (success_toast (utf16 ''Menu item updated successfully''))
            ([SetDialogOpen False, SetEditingItem None] @ resetForm)
            (fetchMenuData itemsResponse categoriesResponse)
      | None \<Rightarrow>
          Call (InsertMenuItem (itemData parseFloat fd)) #
          after_call r error_toast (success_toast (utf16 ''Menu item added successfully''))
            ([SetDialogOpen False, SetEditingItem None] @ resetForm)
            (fetchMenuData itemsResponse categoriesResponse))"

definition handleDelete ::
  "bool \<Rightarrow> js_string \<Rightarrow> unit response \<Rightarrow> 'n MenuItem list response \<Rightarrow>
     MenuCategory list response \<Rightarrow> 'n effect list" where
  "handleDelete confirmed item_id r itemsResponse categoriesResponse =
     (if \<not> confirmed then []
      else Call (DeleteMenuItem item_id) #
           after_call r (\<lambda>message. error_toast (utf16 ''Failed to delete menu item''))
             (success_toast (utf16 ''Menu item deleted successfully'')) []
             (fetchMenuData itemsResponse categoriesResponse))"

definition toggleAvailability ::
  "'n MenuItem \<Rightarrow> unit response \<Rightarrow> 'n MenuItem list response \<Rightarrow> MenuCategory list response \<Rightarrow>
     'n effect list" where
  "toggleAvailability item r itemsResponse categoriesResponse =
     Call (UpdateIsAvailable (\<not> MenuItem_is_available item) (MenuItem_id item)) #
     after_call r (\<lambda>message. error_toast (utf16 ''Failed to update item availability''))
       (success_toast
          (MenuItem_name item @ utf16 '' '' @
           (if \<not> MenuItem_is_available item then utf16 ''enabled'' else utf16 ''disabled'')))
       [] (fetchMenuData itemsResponse categoriesResponse)"

subsection \<open>The dashboard\<close>

text \<open>
  A row of the dashboard's query \<^verbatim>\<open>select('menu_item_id, quantity, menu_items(name)')\<close>;
  the embedded \<^verbatim>\<open>menu_items\<close> is null, or an object with the item's name.
\<close>

record orderItem =
  orderItem_menu_item_id :: "js_string option"
  orderItem_quantity :: int
  orderItem_menu_items :: "js_string option"

text \<open>
  \<^verbatim>\<open>dishCounts\<close> is an object literal \<^verbatim>\<open>{}\<close>: its own properties, in the order they
  were made, on top of what it inherits from \<^verbatim>\<open>Object.prototype\<close>, namely eleven
  functions and the accessor \<^verbatim>\<open>__proto__\<close>. Reading a property the object does not own
  finds the inherited one.
\<close>

definition prototype_functions :: "(js_string \<times> js_string) list" where
  "prototype_functions =
     [(utf16 ''constructor'', utf16 ''Object''),
      (utf16 ''__defineGetter__'', utf16 ''__defineGetter__''),
      (utf16 ''__defineSetter__'', utf16 ''__defineSetter__''),
      (utf16 ''hasOwnProperty'', utf16 ''hasOwnProperty''),
      (utf16 ''__lookupGetter__'', utf16 ''__lookupGetter__''),
      (utf16 ''__lookupSetter__'', utf16 ''__lookupSetter__''),
      (utf16 ''isPrototypeOf'', utf16 ''isPrototypeOf''),
      (utf16 ''propertyIsEnumerable'', utf16 ''propertyIsEnumerable''),
      (utf16 ''toString'', utf16 ''toString''),
      (utf16 ''valueOf'', utf16 ''valueOf''),
      (utf16 ''toLocaleString'', utf16 ''toLocaleString'')]"

datatype property = Undefined | Value js_value | Function js_string | Prototype

definition get_property :: "(js_string \<times> js_value) list \<Rightarrow> js_string \<Rightarrow> property" where
  "get_property obj k =
     (case map_of obj k of
        Some v \<Rightarrow> Value v
      | None \<Rightarrow>
          if k = utf16 ''__proto__'' then Prototype
          else (case map_of prototype_functions k of
                  Some f \<Rightarrow> Function f
                | None \<Rightarrow> Undefined))"

text \<open>
  Assigning makes or overwrites an own property, the inherited functions being writable;
  assigning a string to \<^verbatim>\<open>__proto__\<close> calls its setter, which ignores what is not an
  object.
\<close>

definition set_property ::
  "(js_string \<times> js_value) list \<Rightarrow> js_string \<Rightarrow> js_value \<Rightarrow> (js_string \<times> js_value) list" where
  "set_property obj k v = (if k = utf16 ''__proto__'' then obj else AList.update k v obj)"

text \<open>The decimal digits of a number, as \<^verbatim>\<open>+\<close> appends an integer to a string.\<close>

fun digits :: "nat \<Rightarrow> js_string" where
  "digits n = (if n < 10 then [0x30 + n] else digits (n div 10) @ [0x30 + n mod 10])"

declare digits.simps [simp del]

definition number_to_string :: "int \<Rightarrow> js_string" where
  "number_to_string i = (if i < 0 then 0x2D # digits (nat (- i)) else digits (nat i))"

definition native_code :: "js_string \<Rightarrow> js_string" where
  "native_code f = utf16 ''function '' @ f @ utf16 ''() { [native code] }''"

text \<open>
  \<^verbatim>\<open>(dishCounts[dishName] || 0) + item.quantity\<close>. Undefined, zero and the empty string
  are falsy and give way to \<^verbatim>\<open>0\<close>; a number adds; a string, a function (its source text)
  and the prototype object (\<^verbatim>\<open>[object Object]\<close>) are truthy and concatenate.
\<close>

definition or_zero_plus :: "property \<Rightarrow> int \<Rightarrow> js_value" where
  "or_zero_plus x quantity =
     (case x of
        Undefined \<Rightarrow> Num quantity
      | Value v \<Rightarrow>
          (case v of
             Num n \<Rightarrow> Num (n + quantity)
           | Str s \<Rightarrow> if s = [] then Num quantity else Str (s @ number_to_string quantity))
      | Function f \<Rightarrow> Str (native_code f @ number_to_string quantity)
      | Prototype \<Rightarrow> Str (utf16 ''[object Object]'' @ number_to_string quantity))"

text \<open>
  The body of the \<^verbatim>\<open>forEach\<close>: \<^verbatim>\<open>dishName\<close> is undefined when the embedded item is
  null, and the guard \<^verbatim>\<open>if (dishName)\<close> also skips the empty name.
\<close>

definition count_dish ::
  "(js_string \<times> js_value) list \<Rightarrow> orderItem \<Rightarrow> (js_string \<times> js_value) list" where
  "count_dish obj item =
     (case orderItem_menu_items item of
        None \<Rightarrow> obj
      | Some dishName \<Rightarrow>
          if dishName = [] then obj
          else set_property obj dishName
                 (or_zero_plus (get_property obj dishName) (orderItem_quantity item)))"

definition dishCounts :: "orderItem list \<Rightarrow> (js_string \<times> js_value) list" where
  "dishCounts orderItems = foldl count_dish [] orderItems"

text \<open>
  \<^verbatim>\<open>Object.entries\<close> lists the own properties: first the keys that are array indices
  (the canonical decimal numerals below \<open>2^32 - 1\<close>) in ascending order, then the others in
  the order they were made.
\<close>

definition decimal_value :: "js_string \<Rightarrow> nat" where
  "decimal_value k = foldl (\<lambda>n c. 10 * n + (c - 0x30)) 0 k"

definition array_index :: "js_string \<Rightarrow> nat option" where
  "array_index k =
     (if k \<noteq> [] \<and> list_all (\<lambda>c. 0x30 \<le> c \<and> c \<le> 0x39) k \<and> (k = [0x30] \<or> hd k \<noteq> 0x30) \<and>
         decimal_value k < 2 ^ 32 - 1
      then Some (decimal_value k) else None)"

definition entries :: "(js_string \<times> js_value) list \<Rightarrow> (js_string \<times> js_value) list" where
  "entries obj =
     sort_key (\<lambda>p. decimal_value (fst p)) (filter (\<lambda>p. array_index (fst p) \<noteq> None) obj) @
     filter (\<lambda>p. array_index (fst p) = None) obj"

text \<open>
  The comparator \<^verbatim>\<open>([,a], [,b]) => b - a\<close>; \<open>None\<close> is \<^verbatim>\<open>NaN\<close>, the difference when
  a count is one of the strings above. \<^verbatim>\<open>sort\<close> is stable and takes \<^verbatim>\<open>NaN\<close> for zero:
  an insertion sort that leaves an entry before the first one it does not follow. (With
  \<^verbatim>\<open>NaN\<close> among several entries the comparator is inconsistent and ECMAScript leaves the
  order to the engine; nothing below depends on that order.)
\<close>

definition compare_counts :: "js_string \<times> js_value \<Rightarrow> js_string \<times> js_value \<Rightarrow> int option" where
  "compare_counts x y =
     (case snd x of
        Num a \<Rightarrow> (case snd y of Num b \<Rightarrow> Some (b - a) | Str t \<Rightarrow> None)
      | Str s \<Rightarrow> None)"

fun insert_sorted :: "('a \<Rightarrow> 'a \<Rightarrow> int option) \<Rightarrow> 'a \<Rightarrow> 'a list \<Rightarrow> 'a list" where
  "insert_sorted cmp x [] = [x]"
| "insert_sorted cmp x (y # ys) =
     (if (case cmp x y of None \<Rightarrow> True | Some d \<Rightarrow> d \<le> 0) then x # y # ys
      else y # insert_sorted cmp x ys)"

definition sort_by :: "('a \<Rightarrow> 'a \<Rightarrow> int option) \<Rightarrow> 'a list \<Rightarrow> 'a list" where
  "sort_by cmp xs = foldr (insert_sorted cmp) xs []"

definition popular_dishes :: "orderItem list \<Rightarrow> (js_string \<times> js_value) list" where
  "popular_dishes orderItems = take 5 (sort_by compare_counts (entries (dishCounts orderItems)))"

text \<open>
  What the list is meant to hold: for a dish name, the quantities of the line items that
  name it, added up. \<open>inherited\<close> are the names that \<^verbatim>\<open>Object.prototype\<close> defines.
\<close>

definition ordered_quantity :: "orderItem list \<Rightarrow> js_string \<Rightarrow> int" where
  "ordered_quantity orderItems dishName =
     sum_list (map orderItem_quantity
                 (filter (\<lambda>item. orderItem_menu_items item = Some dishName) orderItems))"

text \<open>The number a count is, when it is one.\<close>

fun num :: "js_value \<Rightarrow> int" where
  "num (Num n) = n"
| "num (Str s) = 0"

definition inherited :: "js_string \<Rightarrow> bool" where
  "inherited k = (k = utf16 ''__proto__'' \<or> map_of prototype_functions k \<noteq> None)"

text \<open>
  \<^verbatim>\<open>fetchDashboardStats\<close> awaits four queries in turn and reads only the \<^verbatim>\<open>count\<close> or
  \<^verbatim>\<open>data\<close> of each response, never its \<^verbatim>\<open>error\<close>: a null count or null data counts
  as zero or as no rows. Only a rejected promise reaches the \<^verbatim>\<open>catch\<close> and its toast.
\<close>

definition dashboard_failed :: "'n effect list" where
  "dashboard_failed =
     [Toast (error_toast (utf16 ''Failed to fetch dashboard statistics'')), SetLoading False]"

definition fetchDashboardStats ::
  "js_string \<Rightarrow> nat response \<Rightarrow> nat response \<Rightarrow> ('n::{zero,plus}) list response \<Rightarrow>
     orderItem list response \<Rightarrow> 'n effect list" where
  "fetchDashboardStats today r1 r2 r3 r4 =
     Call CountOrders #
     (case r1 of
        Rejected e \<Rightarrow> dashboard_failed
      | Resolved total_count e1 \<Rightarrow>
          Call CountPendingOrders #
          (case r2 of
             Rejected e \<Rightarrow> dashboard_failed
           | Resolved pending_count e2 \<Rightarrow>
               Call (SelectTodayOrders today) #
               (case r3 of
                  Rejected e \<Rightarrow> dashboard_failed
                | Resolved todayOrders e3 \<Rightarrow>
                    Call (SelectTodayOrderItems today) #
                    (case r4 of
                       Rejected e \<Rightarrow> dashboard_failed
                     | Resolved orderItems e4 \<Rightarrow>
                         [SetStats
                            \<lparr>totalOrders = (case total_count of None \<Rightarrow> 0 | Some c \<Rightarrow> c),
                             pendingOrders = (case pending_count of None \<Rightarrow> 0 | Some c \<Rightarrow> c),
                             todayRevenue =
                               (case todayOrders of
                                  None \<Rightarrow> 0
                                | Some os \<Rightarrow> foldl (\<lambda>sum total_amount. sum + total_amount) 0 os),
                             popularDishes =
                               popular_dishes (case orderItems of None \<Rightarrow> [] | Some d \<Rightarrow> d)\<rparr>,
                          SetLoading False]))))"

text \<open>A call has failed when its promise rejects or its response carries an error.\<close>

fun failed :: "'d response \<Rightarrow> bool" where
  "failed (Rejected message) = True"
| "failed (Resolved d err) = (err \<noteq> None)"

text \<open>The error toasts and the calls of a run, and the calls issued after its first error toast.\<close>

fun is_error_toast :: "'n effect \<Rightarrow> bool" where
  "is_error_toast (Toast t) = (toast_variant t = destructive)"
| "is_error_toast e = False"

fun is_call :: "'n effect \<Rightarrow> bool" where
  "is_call (Call q) = True"
| "is_call e = False"

definition error_toasts :: "'n effect list \<Rightarrow> 'n effect list" where
  "error_toasts run = filter is_error_toast run"

definition calls :: "'n effect list \<Rightarrow> 'n effect list" where
  "calls run = filter is_call run"

definition calls_after_error :: "'n effect list \<Rightarrow> 'n effect list" where
  "calls_after_error run = calls (dropWhile (\<lambda>e. \<not> is_error_toast e) run)"

section \<open>An example state\<close>

text \<open>
  Three identities: 1 is an admin, 2 is staff, 3 holds no role. Category 20 is active and
  category 21 is not; item 30 is active and available, item 31 is unavailable, item 32 is
  inactive and belongs to category 21. Order 40 has two line items, one of item 30 and one
  of item 32.
\<close>

definition example_user :: "uuid \<Rightarrow> users_row" where
  "example_user i =
     \<lparr>users_id = i, users_email = Some ''user@example.org'',
      users_raw_user_meta_data = [(''full_name'', ''A User'')]\<rparr>"

definition example_profile :: "uuid \<Rightarrow> profiles_row" where
  "example_profile i =
     \<lparr>updated_at = None, profiles_id = i, profiles_email = ''user@example.org'',
      profiles_full_name = None, profiles_avatar_url = None, profiles_created_at = None\<rparr>"

definition example_role :: "uuid \<Rightarrow> uuid \<Rightarrow> user_role \<Rightarrow> user_roles_row" where
  "example_role i u r =
     \<lparr>user_roles_id = i, user_roles_user_id = Some u, user_roles_role = r,
      user_roles_created_at = None\<rparr>"

definition example_category :: "uuid \<Rightarrow> bool \<Rightarrow> menu_categories_row" where
  "example_category i active =
     \<lparr>updated_at = None, menu_categories_id = i, menu_categories_name = ''Desserts'',
      menu_categories_description = None, menu_categories_display_order = Some 0,
      menu_categories_is_active = Some active, menu_categories_created_at = None\<rparr>"

definition example_item :: "uuid \<Rightarrow> uuid \<Rightarrow> bool \<Rightarrow> bool \<Rightarrow> decimal \<Rightarrow> menu_items_row" where
  "example_item i c active available price =
     \<lparr>updated_at = None, menu_items_id = i, menu_items_category_id = Some c,
      menu_items_name = ''Baklava'', menu_items_description = None, menu_items_price = price,
      menu_items_image_url = None, menu_items_display_order = Some 0,
      menu_items_is_active = Some active, menu_items_is_available = Some available,
      menu_items_allergens = Some [''nuts''], menu_items_created_at = None\<rparr>"

definition example_order :: "uuid \<Rightarrow> orders_row" where
  "example_order i =
     \<lparr>updated_at = None, orders_id = i, orders_customer_name = None,
      orders_customer_email = None, orders_customer_phone = None, orders_customer_notes = None,
      orders_total_amount = 3400, orders_status = Some received,
      orders_order_type = Some ''dine_in'', orders_table_number = Some 4,
      orders_estimated_ready_time = None, orders_created_at = None\<rparr>"

definition example_order_item :: "uuid \<Rightarrow> uuid \<Rightarrow> uuid \<Rightarrow> int \<Rightarrow> decimal \<Rightarrow> order_items_row" where
  "example_order_item i ord item quantity price =
     \<lparr>order_items_id = i, order_items_order_id = Some ord, order_items_menu_item_id = Some item,
      order_items_quantity = quantity, order_items_unit_price = price,
      order_items_special_instructions = None, order_items_created_at = None\<rparr>"

definition example_database :: database where
  "example_database =
     \<lparr>auth_users = [example_user 1, example_user 2, example_user 3],
      profiles = [example_profile 1, example_profile 2, example_profile 3],
      user_roles = [example_role 11 1 admin, example_role 12 2 staff],
      menu_categories = [example_category 20 True, example_category 21 False],
      menu_items =
        [example_item 30 20 True True 1250, example_item 31 20 True False 800,
         example_item 32 21 False True 900],
      orders = [example_order 40],
      order_items = [example_order_item 50 40 30 2 1250, example_order_item 51 40 32 1 900]\<rparr>"

definition example_history :: "(users_row \<times> timestamptz \<times> uuid) list" where
  "example_history =
     [(example_user 1, 100, 11), (example_user 2, 101, 12), (example_user 1, 102, 13),
      (example_user 3, 103, 14)]"

text \<open>
  A form as the add dialog submits it: no image, no category, and four allergens typed with
  stray blanks and an empty entry.
\<close>

definition example_formData :: formData where
  "example_formData =
     \<lparr>formData_name = utf16 ''Baklava'', formData_description = [],
      formData_price = utf16 ''12.50'', formData_image_url = [], formData_category_id = [],
      formData_is_active = True, formData_is_available = True,
      formData_allergens = utf16 ''nuts, dairy ,,gluten ''\<rparr>"

definition example_MenuItem :: "int MenuItem" where
  "example_MenuItem =
     \<lparr>MenuItem_id = utf16 ''30'', MenuItem_name = utf16 ''Baklava'', MenuItem_description = [],
      MenuItem_price = 1250, MenuItem_image_url = None, MenuItem_category_id = Some (utf16 ''20''),
      MenuItem_is_active = True, MenuItem_is_available = True,
      MenuItem_allergens = Some [utf16 ''nuts''], MenuItem_display_order = 0,
      MenuItem_menu_categories = Some (utf16 ''Desserts'')\<rparr>"

text \<open>Line items of today's orders, as the dashboard's query returns them.\<close>

definition example_orderItem :: "string \<Rightarrow> int \<Rightarrow> orderItem" where
  "example_orderItem dishName quantity =
     \<lparr>orderItem_menu_item_id = Some (utf16 ''30''), orderItem_quantity = quantity,
      orderItem_menu_items = Some (utf16 dishName)\<rparr>"

section \<open>Evaluating the example\<close>

lemmas example_defs =
  example_user_def example_profile_def example_role_def example_category_def example_item_def
  example_order_def example_order_item_def example_database_def example_history_def

section \<open>Conditions and policies\<close>

lemma sql_eq_True [simp]: "(sql_eq a b = Some True) = (a \<noteq> None \<and> a = b)"
  by (auto simp: sql_eq_def split: option.splits)

lemma sql_and_True [simp]: "(sql_and a b = Some True) = (a = Some True \<and> b = Some True)"
  by (auto simp: sql_and_def)

lemma references_Nil [simp]: "\<not> references ref []"
  by (simp add: references_def split: option.splits)

lemma has_role_iff:
  "has_role roles uid role' =
     (\<exists>r \<in> set roles. uid \<noteq> None \<and> user_roles_user_id r = uid \<and> user_roles_role r = role')"
  by (auto simp: has_role_def list_ex_iff)

lemma is_admin_or_staff_iff:
  "is_admin_or_staff roles uid = (has_role roles uid admin \<or> has_role roles uid staff)"
  by (auto simp: is_admin_or_staff_def has_role_def list_ex_iff)

lemma is_admin_or_staff_None: "\<not> is_admin_or_staff roles None"
  by (auto simp: is_admin_or_staff_def list_ex_iff)

lemma permits_profiles:
  "rls_permits profiles_policies c roles uid r =
     ((c = SELECT \<or> c = UPDATE) \<and> uid = Some (profiles_id r))"
  by (auto simp: rls_permits_def profiles_policies_def policy_applies_def)

lemma permits_user_roles:
  "rls_permits user_roles_policies c roles uid r =
     (has_role roles uid admin \<or> c = SELECT \<and> uid \<noteq> None \<and> uid = user_roles_user_id r)"
  by (auto simp: rls_permits_def user_roles_policies_def policy_applies_def)

lemma permits_menu_categories:
  "rls_permits menu_categories_policies c roles uid r =
     (is_admin_or_staff roles uid \<or> c = SELECT \<and> menu_categories_is_active r = Some True)"
  by (auto simp: rls_permits_def menu_categories_policies_def policy_applies_def)

lemma permits_menu_items:
  "rls_permits menu_items_policies c roles uid r =
     (is_admin_or_staff roles uid \<or>
      c = SELECT \<and> menu_items_is_active r = Some True \<and> menu_items_is_available r = Some True)"
  by (auto simp: rls_permits_def menu_items_policies_def policy_applies_def)

lemma permits_orders: "rls_permits orders_policies c roles uid r = is_admin_or_staff roles uid"
  by (simp add: rls_permits_def orders_policies_def policy_applies_def)

lemma permits_order_items:
  "rls_permits order_items_policies c roles uid r = is_admin_or_staff roles uid"
  by (simp add: rls_permits_def order_items_policies_def policy_applies_def)

section \<open>Statements under a policy that denies or grants everything\<close>

lemma rls_select_eq:
  "rls_select ps roles uid rows = filter (\<lambda>r. rls_permits ps SELECT roles uid r) rows"
  by (simp add: rls_select_def)

lemma rls_update_denied:
  assumes "\<And>r. \<not> rls_permits ps UPDATE roles uid r"
  shows "rls_update ps roles uid wh new rows = Inr rows"
  using assms by (simp add: rls_update_def rls_targets_def list_ex_iff map_idI)

lemma rls_delete_denied:
  assumes "\<And>r. \<not> rls_permits ps DELETE roles uid r"
  shows "rls_delete ps roles uid wh rows = rows"
    and "filter (rls_targets ps DELETE roles uid wh) rows = []"
  using assms by (simp_all add: rls_delete_def rls_targets_def[abs_def])

lemma rls_update_granted:
  assumes "\<And>c r. rls_permits ps c roles uid r"
  shows "rls_update ps roles uid wh new rows = Inr (map (\<lambda>r. if wh r then new r else r) rows)"
  using assms by (simp add: rls_update_def rls_targets_def list_ex_iff)

lemma rls_delete_granted:
  assumes "\<And>c r. rls_permits ps c roles uid r"
  shows "rls_delete ps roles uid wh rows = filter (\<lambda>r. \<not> wh r) rows"
    and "filter (rls_targets ps DELETE roles uid wh) rows = filter wh rows"
  using assms by (simp_all add: rls_delete_def rls_targets_def[abs_def])

lemma rls_update_Inr:
  assumes "rls_update ps roles uid wh new rows = Inr rows'"
  shows "rows' = map (\<lambda>r. if rls_targets ps UPDATE roles uid wh r then new r else r) rows"
  using assms by (auto simp: rls_update_def split: if_splits)

lemma list_all2_updated:
  "list_all2 (\<lambda>old new. if t old then P new else new = old)
     rows (map (\<lambda>r. if t r then f r else r) rows) = (\<forall>r \<in> set rows. t r \<longrightarrow> P (f r))"
  by (induction rows) auto

lemmas example_eval =
  example_defs empty_database_def state_after_def check_constraints_def unique_ok_def
  foreign_keys_ok_def fk_ok_def references_def rls_select_def rls_insert_def rls_update_def
  rls_delete_def rls_targets_def rls_permits_def policy_applies_def has_role_def
  is_admin_or_staff_def sql_eq_def sql_and_def update_updated_at_column_def

section \<open>Provisioning\<close>

lemma case_of_literals_is_text: "case_type [type_unknown, type_unknown] = Some type_text"
  by (simp add: case_type_def)

lemma text_not_assignable_to_enum: "\<not> assignable type_text type_user_role"
  by (simp add: assignable_def)

text \<open>
  The role assignment's insert never passes its analysis, so the trigger fails whatever the
  state and the identity, and no history of creations creates anything.
\<close>

lemma handle_new_user_fails: "\<exists>e. handle_new_user db NEW now rid = Inl e"
  by (simp add: handle_new_user_def case_of_literals_is_text text_not_assignable_to_enum
      split: option.splits sum.splits)

lemma on_auth_user_created_fails: "\<exists>e. on_auth_user_created db NEW now rid = Inl e"
  using handle_new_user_fails by (simp add: on_auth_user_created_def)

lemma create_users_creates_nothing: "create_users db history = db"
proof (induction db history rule: create_users.induct)
  case (1 db)
  then show ?case by simp
next
  case (2 db NEW now rid rest)
  obtain e where "on_auth_user_created db NEW now rid = Inl e"
    using on_auth_user_created_fails by blast
  with 2 show ?case by (simp add: state_after_def)
qed

text \<open>
  Claim C1 says that, for every sequence of identity creations, provisioning gives the role
  \<open>admin\<close> to the first identity ever created and \<open>staff\<close> to every later one, and to none
  both; the trigger's own comment says the same. The code gives no role to any identity.
  The creation of the first identity of an empty system, with an email and a fresh key,
  inserts the profile and then fails on the role assignment: its \<^verbatim>\<open>CASE\<close> of two string
  literals is of type \<^verbatim>\<open>text\<close>, which the enum column \<^verbatim>\<open>role\<close> does not take. The
  creation is rolled back; after the example history of four creations there is no identity,
  no profile and no role assignment.
\<close>

theorem provisioning_fails_on_the_role_insert:
  "on_auth_user_created empty_database (example_user 1) 100 11 = Inl datatype_mismatch \<and>
   create_users empty_database example_history = empty_database \<and>
   auth_users (create_users empty_database example_history) = [] \<and>
   roles_of (create_users empty_database example_history) 1 = []"
  by (simp add: create_users_creates_nothing on_auth_user_created_def handle_new_user_def
      case_of_literals_is_text text_not_assignable_to_enum check_constraints_def unique_ok_def
      foreign_keys_ok_def fk_ok_def example_user_def empty_database_def roles_of_def)

section \<open>Catalog reads\<close>

text \<open>
  Claim C2. A caller that holds neither role, an unauthenticated one among them, reads of
  \<^verbatim>\<open>menu_categories\<close> exactly the rows whose \<^verbatim>\<open>is_active\<close> is true, and of
  \<^verbatim>\<open>menu_items\<close> exactly the rows whose \<^verbatim>\<open>is_active\<close> and \<^verbatim>\<open>is_available\<close> are
  both true, so that an unavailable item is left out whatever its \<^verbatim>\<open>is_active\<close>. A caller
  that holds the admin or the staff role reads every row of both tables.
\<close>

theorem public_reads_active_rows_staff_read_all:
  "(\<not> has_role (user_roles db) uid admin \<and> \<not> has_role (user_roles db) uid staff \<longrightarrow>
      select_menu_categories db uid =
        filter (\<lambda>r. menu_categories_is_active r = Some True) (menu_categories db) \<and>
      select_menu_items db uid =
        filter (\<lambda>r. menu_items_is_active r = Some True \<and> menu_items_is_available r = Some True)
          (menu_items db)) \<and>
   (has_role (user_roles db) uid admin \<or> has_role (user_roles db) uid staff \<longrightarrow>
      select_menu_categories db uid = menu_categories db \<and>
      select_menu_items db uid = menu_items db) \<and>
   \<not> has_role (user_roles db) None admin \<and> \<not> has_role (user_roles db) None staff"
proof -
  have "\<not> has_role (user_roles db) None role'" for role'
    by (simp add: has_role_iff)
  then show ?thesis
    by (simp add: select_menu_categories_def select_menu_items_def rls_select_eq
        permits_menu_categories permits_menu_items is_admin_or_staff_iff)
qed

text \<open>The reads of the example state by nobody, by identity 3, by staff and by the admin.\<close>

theorem public_reads_active_rows_staff_read_all_example:
  "select_menu_categories example_database None = [example_category 20 True] \<and>
   select_menu_items example_database None = [example_item 30 20 True True 1250] \<and>
   select_menu_items example_database (Some 3) = [example_item 30 20 True True 1250] \<and>
   select_menu_categories example_database (Some 2) =
     [example_category 20 True, example_category 21 False] \<and>
   select_menu_items example_database (Some 1) =
     [example_item 30 20 True True 1250, example_item 31 20 True False 800,
      example_item 32 21 False True 900]"
  using public_reads_active_rows_staff_read_all[of example_database None]
    public_reads_active_rows_staff_read_all[of example_database "Some 3"]
    public_reads_active_rows_staff_read_all[of example_database "Some 2"]
    public_reads_active_rows_staff_read_all[of example_database "Some 1"]
  by (simp add: example_defs has_role_def)

section \<open>Price changes and line items\<close>

lemma update_menu_items_frame:
  "order_items (state_after db (update_menu_items db uid wh assign now)) = order_items db"
  by (simp add: update_menu_items_def state_after_def check_constraints_def split: sum.splits)

text \<open>
  Claim C3. Whatever prices of menu items are changed afterwards, by whatever callers, the
  line items of the orders are the rows they were: each keeps the \<^verbatim>\<open>unit_price\<close> it was
  inserted with.
\<close>

theorem unit_price_unchanged_by_price_updates:
  "order_items (update_prices db changes) = order_items db \<and>
   map order_items_unit_price (order_items (update_prices db changes)) =
     map order_items_unit_price (order_items db)"
proof -
  have "order_items (update_prices db changes) = order_items db"
    by (induction db changes rule: update_prices.induct)
       (simp_all add: update_menu_items_price_def update_menu_items_frame)
  then show ?thesis by simp
qed

text \<open>
  In the example the admin raises the price of item 30, staff takes a tenth off every item
  of category 21, and identity 3 tries to reprice item 31 and changes nothing. The line
  items keep their prices.
\<close>

theorem unit_price_unchanged_by_price_updates_example:
  "map menu_items_price (menu_items example_database) = [1250, 800, 900] \<and>
   map menu_items_price
     (menu_items (update_prices example_database
        [(Some 1, \<lambda>r. menu_items_id r = 30, \<lambda>r. 1500, 7),
         (Some 2, \<lambda>r. menu_items_category_id r = Some 21, \<lambda>r. menu_items_price r - 90, 8),
         (Some 3, \<lambda>r. menu_items_id r = 31, \<lambda>r. 100, 9)])) = [1500, 800, 810] \<and>
   map order_items_unit_price
     (order_items (update_prices example_database
        [(Some 1, \<lambda>r. menu_items_id r = 30, \<lambda>r. 1500, 7),
         (Some 2, \<lambda>r. menu_items_category_id r = Some 21, \<lambda>r. menu_items_price r - 90, 8),
         (Some 3, \<lambda>r. menu_items_id r = 31, \<lambda>r. 100, 9)])) = [1250, 900]"
  using unit_price_unchanged_by_price_updates
    [of example_database "[(Some 1, \<lambda>r. menu_items_id r = 30, \<lambda>r. 1500, 7),
         (Some 2, \<lambda>r. menu_items_category_id r = Some 21, \<lambda>r. menu_items_price r - 90, 8),
         (Some 3, \<lambda>r. menu_items_id r = 31, \<lambda>r. 100, 9)]"]
  by (simp add: example_eval update_menu_items_price_def update_menu_items_def
      menu_items_policies_def)

section \<open>Orders and their line items\<close>

lemma orders_denied:
  assumes "\<not> is_admin_or_staff (user_roles db) uid"
  shows "select_orders db uid = []"
    and "select_order_items db uid = []"
    and "insert_orders db uid r = Inl insufficient_privilege"
    and "insert_order_items db uid ri = Inl insufficient_privilege"
    and "state_after db (update_orders db uid wh assign now) = db"
    and "state_after db (update_order_items db uid whi assigni) = db"
    and "delete_orders db uid wh = db"
    and "delete_order_items db uid whi = db"
  using assms
  by (simp_all add: select_orders_def select_order_items_def rls_select_eq permits_orders
      permits_order_items insert_orders_def insert_order_items_def rls_insert_def
      update_orders_def update_order_items_def rls_update_denied state_after_def
      check_constraints_def delete_orders_def delete_order_items_def rls_delete_denied
      cascade_orders_def)

lemma orders_granted:
  assumes "is_admin_or_staff (user_roles db) uid"
  shows "select_orders db uid = orders db"
    and "select_order_items db uid = order_items db"
    and "insert_orders db uid r = check_constraints (db\<lparr>orders := orders db @ [r]\<rparr>)"
    and "insert_order_items db uid ri =
           check_constraints (db\<lparr>order_items := order_items db @ [ri]\<rparr>)"
    and "update_orders db uid wh assign now =
           check_constraints
             (db\<lparr>orders := map (\<lambda>r. if wh r then update_updated_at_column now (assign r) else r)
                               (orders db)\<rparr>)"
    and "update_order_items db uid whi assigni =
           check_constraints
             (db\<lparr>order_items := map (\<lambda>r. if whi r then assigni r else r) (order_items db)\<rparr>)"
    and "orders (delete_orders db uid wh) = filter (\<lambda>r. \<not> wh r) (orders db)"
    and "order_items (delete_order_items db uid whi) = filter (\<lambda>r. \<not> whi r) (order_items db)"
  using assms
  by (simp_all add: select_orders_def select_order_items_def rls_select_eq permits_orders
      permits_order_items insert_orders_def insert_order_items_def rls_insert_def
      update_orders_def update_order_items_def rls_update_granted delete_orders_def
      delete_order_items_def rls_delete_granted cascade_orders_def)

text \<open>
  Claim C4. In every state, a caller that holds neither the admin nor the staff role reads
  no row of \<^verbatim>\<open>orders\<close> or \<^verbatim>\<open>order_items\<close> and writes none: its inserts fail on the
  policy, and its updates and deletes find no row and leave the state as it was. For a
  caller that holds either role the policies pass every command on every row: it reads all
  rows, and its inserts, updates and deletes take effect as its \<^verbatim>\<open>WHERE\<close> and \<^verbatim>\<open>SET\<close>
  clauses say, the constraints of the schema permitting.
\<close>

theorem orders_for_admin_and_staff_only:
  "(\<not> has_role (user_roles db) uid admin \<and> \<not> has_role (user_roles db) uid staff \<longrightarrow>
      select_orders db uid = [] \<and>
      select_order_items db uid = [] \<and>
      insert_orders db uid r = Inl insufficient_privilege \<and>
      insert_order_items db uid ri = Inl insufficient_privilege \<and>
      state_after db (update_orders db uid wh assign now) = db \<and>
      state_after db (update_order_items db uid whi assigni) = db \<and>
      delete_orders db uid wh = db \<and>
      delete_order_items db uid whi = db) \<and>
   (has_role (user_roles db) uid admin \<or> has_role (user_roles db) uid staff \<longrightarrow>
      rls_permits orders_policies c (user_roles db) uid r \<and>
      rls_permits order_items_policies c (user_roles db) uid ri \<and>
      select_orders db uid = orders db \<and>
      select_order_items db uid = order_items db \<and>
      insert_orders db uid r = check_constraints (db\<lparr>orders := orders db @ [r]\<rparr>) \<and>
      insert_order_items db uid ri =
        check_constraints (db\<lparr>order_items := order_items db @ [ri]\<rparr>) \<and>
      update_orders db uid wh assign now =
        check_constraints
          (db\<lparr>orders := map (\<lambda>r. if wh r then update_updated_at_column now (assign r) else r)
                            (orders db)\<rparr>) \<and>
      update_order_items db uid whi assigni =
        check_constraints
          (db\<lparr>order_items := map (\<lambda>r. if whi r then assigni r else r) (order_items db)\<rparr>) \<and>
      orders (delete_orders db uid wh) = filter (\<lambda>r. \<not> wh r) (orders db) \<and>
      order_items (delete_order_items db uid whi) = filter (\<lambda>r. \<not> whi r) (order_items db))"
proof (intro conjI impI)
  assume "\<not> has_role (user_roles db) uid admin \<and> \<not> has_role (user_roles db) uid staff"
  then have no: "\<not> is_admin_or_staff (user_roles db) uid"
    by (simp add: is_admin_or_staff_iff)
  show "select_orders db uid = []"
    and "select_order_items db uid = []"
    and "insert_orders db uid r = Inl insufficient_privilege"
    and "insert_order_items db uid ri = Inl insufficient_privilege"
    and "state_after db (update_orders db uid wh assign now) = db"
    and "state_after db (update_order_items db uid whi assigni) = db"
    and "delete_orders db uid wh = db"
    and "delete_order_items db uid whi = db"
    by (rule orders_denied[OF no])+
next
  assume "has_role (user_roles db) uid admin \<or> has_role (user_roles db) uid staff"
  then have yes: "is_admin_or_staff (user_roles db) uid"
    by (simp add: is_admin_or_staff_iff)
  show "rls_permits orders_policies c (user_roles db) uid r"
    and "rls_permits order_items_policies c (user_roles db) uid ri"
    using yes by (simp_all add: permits_orders permits_order_items)
  show "select_orders db uid = orders db"
    and "select_order_items db uid = order_items db"
    and "insert_orders db uid r = check_constraints (db\<lparr>orders := orders db @ [r]\<rparr>)"
    and "insert_order_items db uid ri =
           check_constraints (db\<lparr>order_items := order_items db @ [ri]\<rparr>)"
    and "update_orders db uid wh assign now =
           check_constraints
             (db\<lparr>orders := map (\<lambda>r. if wh r then update_updated_at_column now (assign r) else r)
                               (orders db)\<rparr>)"
    and "update_order_items db uid whi assigni =
           check_constraints
             (db\<lparr>order_items := map (\<lambda>r. if whi r then assigni r else r) (order_items db)\<rparr>)"
    and "orders (delete_orders db uid wh) = filter (\<lambda>r. \<not> wh r) (orders db)"
    and "order_items (delete_order_items db uid whi) = filter (\<lambda>r. \<not> whi r) (order_items db)"
    by (rule orders_granted[OF yes])+
qed

text \<open>
  In the example identity 3 and an unauthenticated caller read and write nothing, while
  staff reads the order and its line items, inserts a second order, marks the first one
  ready and deletes a line item.
\<close>

theorem orders_for_admin_and_staff_only_example:
  "select_orders example_database (Some 3) = [] \<and>
   select_order_items example_database None = [] \<and>
   insert_orders example_database (Some 3) (example_order 41) = Inl insufficient_privilege \<and>
   state_after example_database
     (update_orders example_database (Some 3) (\<lambda>r. orders_id r = 40)
        (\<lambda>r. r\<lparr>orders_status := Some cancelled\<rparr>) 9) = example_database \<and>
   delete_orders example_database None (\<lambda>r. orders_id r = 40) = example_database \<and>
   select_orders example_database (Some 2) = [example_order 40] \<and>
   select_order_items example_database (Some 2) =
     [example_order_item 50 40 30 2 1250, example_order_item 51 40 32 1 900] \<and>
   map orders_id (orders (state_after example_database
     (insert_orders example_database (Some 2) (example_order 41)))) = [40, 41] \<and>
   map orders_status (orders (state_after example_database
     (update_orders example_database (Some 2) (\<lambda>r. orders_id r = 40)
        (\<lambda>r. r\<lparr>orders_status := Some ready\<rparr>) 9))) = [Some ready] \<and>
   map order_items_id (order_items
     (delete_order_items example_database (Some 2) (\<lambda>r. order_items_id r = 50))) = [51]"
  using orders_for_admin_and_staff_only
      [of example_database "Some 3" "example_order 41" "example_order_item 52 40 30 1 1250"
        "\<lambda>r. orders_id r = 40" "\<lambda>r. r\<lparr>orders_status := Some cancelled\<rparr>" 9
        "\<lambda>r. order_items_id r = 50" id SELECT]
    orders_for_admin_and_staff_only
      [of example_database None "example_order 41" "example_order_item 52 40 30 1 1250"
        "\<lambda>r. orders_id r = 40" "\<lambda>r. r\<lparr>orders_status := Some cancelled\<rparr>" 9
        "\<lambda>r. order_items_id r = 50" id SELECT]
    orders_for_admin_and_staff_only
      [of example_database "Some 2" "example_order 41" "example_order_item 52 40 30 1 1250"
        "\<lambda>r. orders_id r = 40" "\<lambda>r. r\<lparr>orders_status := Some ready\<rparr>" 9
        "\<lambda>r. order_items_id r = 50" id SELECT]
  by (simp add: example_eval)

section \<open>Role assignments\<close>

lemma user_roles_denied:
  assumes "\<not> has_role (user_roles db) uid admin"
  shows "insert_user_roles db uid r = Inl insufficient_privilege"
    and "state_after db (update_user_roles db uid wh assign) = db"
    and "delete_user_roles db uid wh = db"
    and "select_user_roles db uid =
           filter (\<lambda>r. uid \<noteq> None \<and> user_roles_user_id r = uid) (user_roles db)"
  using assms
  by (auto simp: insert_user_roles_def rls_insert_def permits_user_roles update_user_roles_def
      rls_update_denied state_after_def check_constraints_def delete_user_roles_def
      rls_delete_denied select_user_roles_def rls_select_eq intro: filter_cong)

lemma user_roles_granted:
  assumes "has_role (user_roles db) uid admin"
  shows "rls_permits user_roles_policies c (user_roles db) uid r"
    and "select_user_roles db uid = user_roles db"
    and "insert_user_roles db uid r = check_constraints (db\<lparr>user_roles := user_roles db @ [r]\<rparr>)"
    and "update_user_roles db uid wh assign =
           check_constraints
             (db\<lparr>user_roles := map (\<lambda>r. if wh r then assign r else r) (user_roles db)\<rparr>)"
    and "delete_user_roles db uid wh = db\<lparr>user_roles := filter (\<lambda>r. \<not> wh r) (user_roles db)\<rparr>"
  using assms
  by (simp_all add: insert_user_roles_def rls_insert_def permits_user_roles
      update_user_roles_def rls_update_granted delete_user_roles_def rls_delete_granted
      select_user_roles_def rls_select_eq)

text \<open>
  Claim C5, as row-level security has it. Of a caller without the admin role, an insert into
  \<^verbatim>\<open>user_roles\<close> is rejected on the policy. An update or a delete, of its own rows or of
  another identity's, is not rejected: the policy hides every row from it, so the statement
  runs on no row and, in a state that satisfies the constraints, succeeds. In all three the
  table stays as it was. The caller's read of the table succeeds and returns exactly its own
  assignments. For an admin the policy passes every command on every row: it reads all rows,
  and its inserts, updates and deletes take effect, the constraints of the schema permitting.
\<close>

theorem user_roles_written_by_admins_only:
  "(\<not> has_role (user_roles db) uid admin \<longrightarrow>
      insert_user_roles db uid r = Inl insufficient_privilege \<and>
      state_after db (insert_user_roles db uid r) = db \<and>
      update_user_roles db uid wh assign = check_constraints db \<and>
      update_user_roles db uid wh assign \<noteq> Inl insufficient_privilege \<and>
      (unique_ok db \<and> foreign_keys_ok db \<longrightarrow> update_user_roles db uid wh assign = Inr db) \<and>
      state_after db (update_user_roles db uid wh assign) = db \<and>
      delete_user_roles db uid wh = db \<and>
      select_user_roles db uid =
        filter (\<lambda>r. uid \<noteq> None \<and> user_roles_user_id r = uid) (user_roles db)) \<and>
   (has_role (user_roles db) uid admin \<longrightarrow>
      rls_permits user_roles_policies c (user_roles db) uid r \<and>
      select_user_roles db uid = user_roles db \<and>
      insert_user_roles db uid r = check_constraints (db\<lparr>user_roles := user_roles db @ [r]\<rparr>) \<and>
      update_user_roles db uid wh assign =
        check_constraints
          (db\<lparr>user_roles := map (\<lambda>r. if wh r then assign r else r) (user_roles db)\<rparr>) \<and>
      delete_user_roles db uid wh = db\<lparr>user_roles := filter (\<lambda>r. \<not> wh r) (user_roles db)\<rparr>)"
proof (intro conjI impI)
  assume no: "\<not> has_role (user_roles db) uid admin"
  show "insert_user_roles db uid r = Inl insufficient_privilege"
    and "state_after db (update_user_roles db uid wh assign) = db"
    and "delete_user_roles db uid wh = db"
    and "select_user_roles db uid =
           filter (\<lambda>r. uid \<noteq> None \<and> user_roles_user_id r = uid) (user_roles db)"
    by (rule user_roles_denied[OF no])+
  then show "state_after db (insert_user_roles db uid r) = db"
    by (simp add: state_after_def)
  show skipped: "update_user_roles db uid wh assign = check_constraints db"
    using no by (simp add: update_user_roles_def rls_update_denied permits_user_roles)
  then show "update_user_roles db uid wh assign \<noteq> Inl insufficient_privilege"
    by (simp add: check_constraints_def)
  from skipped show "update_user_roles db uid wh assign = Inr db"
    if "unique_ok db \<and> foreign_keys_ok db"
    using that by (simp add: check_constraints_def)
next
  assume yes: "has_role (user_roles db) uid admin"
  show "rls_permits user_roles_policies c (user_roles db) uid r"
    and "select_user_roles db uid = user_roles db"
    and "insert_user_roles db uid r = check_constraints (db\<lparr>user_roles := user_roles db @ [r]\<rparr>)"
    and "update_user_roles db uid wh assign =
           check_constraints
             (db\<lparr>user_roles := map (\<lambda>r. if wh r then assign r else r) (user_roles db)\<rparr>)"
    and "delete_user_roles db uid wh = db\<lparr>user_roles := filter (\<lambda>r. \<not> wh r) (user_roles db)\<rparr>"
    by (rule user_roles_granted[OF yes])+
qed

text \<open>
  The claim as worded, that a non-admin's update of another identity's assignment is
  rejected, fails in the example: staff (identity 2) sets the role of the admin (identity 1)
  to \<open>staff\<close>, and the statement succeeds, on no row.
\<close>

theorem non_admin_update_of_user_roles_succeeds_on_no_row:
  "\<not> has_role (user_roles example_database) (Some 2) admin \<and>
   update_user_roles_role example_database (Some 2) 1 staff = Inr example_database"
  by (simp add: example_eval update_user_roles_role_def update_user_roles_def
      user_roles_policies_def)

text \<open>
  In the example staff (identity 2) cannot make itself an admin, by insert or by update,
  nor remove the admin's assignment, and reads its own assignment; the admin reads both
  assignments and promotes identity 2.
\<close>

theorem user_roles_written_by_admins_only_example:
  "insert_user_roles example_database (Some 2) (example_role 13 2 admin) =
     Inl insufficient_privilege \<and>
   update_user_roles example_database (Some 2) (\<lambda>r. user_roles_user_id r = Some 2)
     (\<lambda>r. r\<lparr>user_roles_role := admin\<rparr>) = Inr example_database \<and>
   delete_user_roles example_database (Some 2) (\<lambda>r. user_roles_user_id r = Some 1) =
     example_database \<and>
   select_user_roles example_database (Some 2) = [example_role 12 2 staff] \<and>
   select_user_roles example_database (Some 1) = [example_role 11 1 admin, example_role 12 2 staff] \<and>
   user_roles (state_after example_database
     (update_user_roles example_database (Some 1) (\<lambda>r. user_roles_user_id r = Some 2)
        (\<lambda>r. r\<lparr>user_roles_role := admin\<rparr>))) = [example_role 11 1 admin, example_role 12 2 admin]"
  using user_roles_written_by_admins_only
      [of example_database "Some 2" "example_role 13 2 admin" "\<lambda>r. user_roles_user_id r = Some 2"
        "\<lambda>r. r\<lparr>user_roles_role := admin\<rparr>" SELECT]
    user_roles_written_by_admins_only
      [of example_database "Some 2" "example_role 13 2 admin" "\<lambda>r. user_roles_user_id r = Some 1"
        "\<lambda>r. r\<lparr>user_roles_role := admin\<rparr>" SELECT]
    user_roles_written_by_admins_only
      [of example_database "Some 1" "example_role 13 2 admin" "\<lambda>r. user_roles_user_id r = Some 2"
        "\<lambda>r. r\<lparr>user_roles_role := admin\<rparr>" SELECT]
  by (simp add: example_eval user_roles_policies_def insert_user_roles_def update_user_roles_def
      delete_user_roles_def select_user_roles_def)

section \<open>Cascades\<close>

text \<open>
  Claim C6, as the schema has it. Deleting rows of \<^verbatim>\<open>menu_categories\<close> removes, besides
  them, exactly the \<^verbatim>\<open>menu_items\<close> rows whose \<^verbatim>\<open>category_id\<close> references one of them
  and exactly the \<^verbatim>\<open>order_items\<close> rows whose \<^verbatim>\<open>menu_item_id\<close> references one of the
  items so removed; deleting rows of \<^verbatim>\<open>orders\<close> removes, besides them, exactly the
  \<^verbatim>\<open>order_items\<close> rows whose \<^verbatim>\<open>order_id\<close> references one of them. No row of any other
  table is removed.
\<close>

theorem cascades_remove_exactly_the_referencing_rows:
  "menu_categories (delete_menu_categories db uid wh) =
     filter (\<lambda>r. \<not> rls_targets menu_categories_policies DELETE (user_roles db) uid wh r)
       (menu_categories db) \<and>
   menu_items (delete_menu_categories db uid wh) =
     filter (\<lambda>r. \<not> references (menu_items_category_id r)
                    (map menu_categories_id
                       (filter (rls_targets menu_categories_policies DELETE (user_roles db) uid wh)
                          (menu_categories db))))
       (menu_items db) \<and>
   order_items (delete_menu_categories db uid wh) =
     filter (\<lambda>r. \<not> references (order_items_menu_item_id r)
                    (map menu_items_id
                       (filter (\<lambda>i. references (menu_items_category_id i)
                                      (map menu_categories_id
                                         (filter (rls_targets menu_categories_policies DELETE
                                                    (user_roles db) uid wh)
                                            (menu_categories db))))
                          (menu_items db))))
       (order_items db) \<and>
   orders (delete_menu_categories db uid wh) = orders db \<and>
   user_roles (delete_menu_categories db uid wh) = user_roles db \<and>
   profiles (delete_menu_categories db uid wh) = profiles db \<and>
   auth_users (delete_menu_categories db uid wh) = auth_users db \<and>
   orders (delete_orders db uid wh') =
     filter (\<lambda>r. \<not> rls_targets orders_policies DELETE (user_roles db) uid wh' r) (orders db) \<and>
   order_items (delete_orders db uid wh') =
     filter (\<lambda>r. \<not> references (order_items_order_id r)
                    (map orders_id
                       (filter (rls_targets orders_policies DELETE (user_roles db) uid wh')
                          (orders db))))
       (order_items db) \<and>
   menu_items (delete_orders db uid wh') = menu_items db \<and>
   menu_categories (delete_orders db uid wh') = menu_categories db \<and>
   user_roles (delete_orders db uid wh') = user_roles db \<and>
   profiles (delete_orders db uid wh') = profiles db \<and>
   auth_users (delete_orders db uid wh') = auth_users db"
  by (simp add: delete_menu_categories_def cascade_menu_categories_def cascade_menu_items_def
      delete_orders_def cascade_orders_def rls_delete_def)

text \<open>
  The claim as the specification words it, that the cascade from a category removes menu
  items and no other rows, fails in the example: the admin deletes category 21, and with its
  item 32 goes line item 51 of order 40, an order that is not deleted.
\<close>

theorem category_cascade_reaches_order_items:
  "order_items example_database =
     [example_order_item 50 40 30 2 1250, example_order_item 51 40 32 1 900] \<and>
   orders (delete_menu_category example_database (Some 1) 21) = [example_order 40] \<and>
   order_items (delete_menu_category example_database (Some 1) 21) =
     [example_order_item 50 40 30 2 1250] \<and>
   order_items (delete_menu_category example_database (Some 1) 21) \<noteq>
     order_items example_database"
  by (simp add: example_eval delete_menu_category_def delete_menu_categories_def
      cascade_menu_categories_def cascade_menu_items_def menu_categories_policies_def)

text \<open>The two deletes in the example, by the admin.\<close>

theorem cascades_remove_exactly_the_referencing_rows_example:
  "map menu_categories_id (menu_categories (delete_menu_category example_database (Some 1) 20)) = [21] \<and>
   map menu_items_id (menu_items (delete_menu_category example_database (Some 1) 20)) = [32] \<and>
   map order_items_id (order_items (delete_menu_category example_database (Some 1) 20)) = [51] \<and>
   orders (delete_order example_database (Some 1) 40) = [] \<and>
   order_items (delete_order example_database (Some 1) 40) = [] \<and>
   menu_items (delete_order example_database (Some 1) 40) = menu_items example_database"
  using cascades_remove_exactly_the_referencing_rows
      [of example_database "Some 1" "\<lambda>r. menu_categories_id r = 20" "\<lambda>r. orders_id r = 40"]
  by (simp add: example_eval delete_menu_category_def delete_order_def
      menu_categories_policies_def orders_policies_def)

section \<open>The \<^verbatim>\<open>updated_at\<close> trigger\<close>

lemma rls_update_refreshes:
  assumes "rls_update ps roles uid wh (\<lambda>r. update_updated_at_column now (assign r)) rows = Inr rows'"
  shows "list_all2
           (\<lambda>old new. if rls_targets ps UPDATE roles uid wh old then updated_at new = Some now
                       else new = old) rows rows'"
  unfolding rls_update_Inr[OF assms] list_all2_updated
  by (simp add: update_updated_at_column_def)

lemma check_constraints_Inr: "check_constraints db = Inr db' \<Longrightarrow> db' = db"
  by (simp add: check_constraints_def split: if_splits)

lemma update_profiles_refreshes:
  assumes "update_profiles db uid wh assign now = Inr db'"
  shows "list_all2
           (\<lambda>old new. if rls_targets profiles_policies UPDATE (user_roles db) uid wh old
                       then updated_at new = Some now else new = old)
           (profiles db) (profiles db')"
proof -
  from assms obtain rows
    where rows: "rls_update profiles_policies (user_roles db) uid wh
                   (\<lambda>r. update_updated_at_column now (assign r)) (profiles db) = Inr rows"
      and "db' = db\<lparr>profiles := rows\<rparr>"
    by (auto simp: update_profiles_def split: sum.splits dest!: check_constraints_Inr)
  then have "profiles db' = rows" by simp
  with rls_update_refreshes[OF rows] show ?thesis by (simp only:)
qed

lemma update_menu_categories_refreshes:
  assumes "update_menu_categories db uid wh assign now = Inr db'"
  shows "list_all2
           (\<lambda>old new. if rls_targets menu_categories_policies UPDATE (user_roles db) uid wh old
                       then updated_at new = Some now else new = old)
           (menu_categories db) (menu_categories db')"
proof -
  from assms obtain rows
    where rows: "rls_update menu_categories_policies (user_roles db) uid wh
                   (\<lambda>r. update_updated_at_column now (assign r)) (menu_categories db) = Inr rows"
      and "db' = db\<lparr>menu_categories := rows\<rparr>"
    by (auto simp: update_menu_categories_def split: sum.splits dest!: check_constraints_Inr)
  then have "menu_categories db' = rows" by simp
  with rls_update_refreshes[OF rows] show ?thesis by (simp only:)
qed

lemma update_menu_items_refreshes:
  assumes "update_menu_items db uid wh assign now = Inr db'"
  shows "list_all2
           (\<lambda>old new. if rls_targets menu_items_policies UPDATE (user_roles db) uid wh old
                       then updated_at new = Some now else new = old)
           (menu_items db) (menu_items db')"
proof -
  from assms obtain rows
    where rows: "rls_update menu_items_policies (user_roles db) uid wh
                   (\<lambda>r. update_updated_at_column now (assign r)) (menu_items db) = Inr rows"
      and "db' = db\<lparr>menu_items := rows\<rparr>"
    by (auto simp: update_menu_items_def split: sum.splits dest!: check_constraints_Inr)
  then have "menu_items db' = rows" by simp
  with rls_update_refreshes[OF rows] show ?thesis by (simp only:)
qed

lemma update_orders_refreshes:
  assumes "update_orders db uid wh assign now = Inr db'"
  shows "list_all2
           (\<lambda>old new. if rls_targets orders_policies UPDATE (user_roles db) uid wh old
                       then updated_at new = Some now else new = old)
           (orders db) (orders db')"
proof -
  from assms obtain rows
    where rows: "rls_update orders_policies (user_roles db) uid wh
                   (\<lambda>r. update_updated_at_column now (assign r)) (orders db) = Inr rows"
      and "db' = db\<lparr>orders := rows\<rparr>"
    by (auto simp: update_orders_def split: sum.splits dest!: check_constraints_Inr)
  then have "orders db' = rows" by simp
  with rls_update_refreshes[OF rows] show ?thesis by (simp only:)
qed

text \<open>
  Claim C7. The tables that carry an \<^verbatim>\<open>updated_at\<close> column are \<^verbatim>\<open>profiles\<close>,
  \<^verbatim>\<open>menu_categories\<close>, \<^verbatim>\<open>menu_items\<close> and \<^verbatim>\<open>orders\<close>. On each of them, whenever an
  update goes through, every row it updates has its \<^verbatim>\<open>updated_at\<close> set to the time of
  the update, whatever the statement itself assigns to that column; the rows it does not
  update are as they were.
\<close>

theorem updated_at_set_on_every_update:
  "(update_profiles db uid wh1 assign1 now = Inr db1 \<longrightarrow>
      list_all2
        (\<lambda>old new. if rls_targets profiles_policies UPDATE (user_roles db) uid wh1 old
                    then updated_at new = Some now else new = old)
        (profiles db) (profiles db1)) \<and>
   (update_menu_categories db uid wh2 assign2 now = Inr db2 \<longrightarrow>
      list_all2
        (\<lambda>old new. if rls_targets menu_categories_policies UPDATE (user_roles db) uid wh2 old
                    then updated_at new = Some now else new = old)
        (menu_categories db) (menu_categories db2)) \<and>
   (update_menu_items db uid wh3 assign3 now = Inr db3 \<longrightarrow>
      list_all2
        (\<lambda>old new. if rls_targets menu_items_policies UPDATE (user_roles db) uid wh3 old
                    then updated_at new = Some now else new = old)
        (menu_items db) (menu_items db3)) \<and>
   (update_orders db uid wh4 assign4 now = Inr db4 \<longrightarrow>
      list_all2
        (\<lambda>old new. if rls_targets orders_policies UPDATE (user_roles db) uid wh4 old
                    then updated_at new = Some now else new = old)
        (orders db) (orders db4))"
  by (intro conjI impI;
      erule update_profiles_refreshes update_menu_categories_refreshes
        update_menu_items_refreshes update_orders_refreshes)

text \<open>
  In the example, at time 778: identity 3 renames its own profile, staff hides category 20,
  the admin reprices item 30 and tries to set its \<^verbatim>\<open>updated_at\<close> to 1, and staff marks
  order 40 ready.
\<close>

theorem updated_at_set_on_every_update_example:
  "map updated_at (profiles (state_after example_database
     (update_profiles example_database (Some 3) (\<lambda>r. profiles_id r = 3)
        (\<lambda>r. r\<lparr>profiles_full_name := Some ''Another Name''\<rparr>) 778))) = [None, None, Some 778] \<and>
   map updated_at (menu_categories (state_after example_database
     (update_menu_categories example_database (Some 2) (\<lambda>r. menu_categories_id r = 20)
        (\<lambda>r. r\<lparr>menu_categories_is_active := Some False\<rparr>) 778))) = [Some 778, None] \<and>
   map updated_at (menu_items (state_after example_database
     (update_menu_items example_database (Some 1) (\<lambda>r. menu_items_id r = 30)
        (\<lambda>r. r\<lparr>menu_items_price := 1500, updated_at := Some 1\<rparr>) 778))) = [Some 778, None, None] \<and>
   map updated_at (orders (state_after example_database
     (update_orders example_database (Some 2) (\<lambda>r. orders_id r = 40)
        (\<lambda>r. r\<lparr>orders_status := Some ready\<rparr>) 778))) = [Some 778]"
  using updated_at_set_on_every_update
      [of example_database "Some 3" "\<lambda>r. profiles_id r = 3"
        "\<lambda>r. r\<lparr>profiles_full_name := Some ''Another Name''\<rparr>" 778
        "state_after example_database
           (update_profiles example_database (Some 3) (\<lambda>r. profiles_id r = 3)
              (\<lambda>r. r\<lparr>profiles_full_name := Some ''Another Name''\<rparr>) 778)"
        "\<lambda>r. False" id example_database "\<lambda>r. False" id example_database "\<lambda>r. False" id
        example_database]
    updated_at_set_on_every_update
      [of example_database "Some 2" "\<lambda>r. False" id 778 example_database
        "\<lambda>r. menu_categories_id r = 20" "\<lambda>r. r\<lparr>menu_categories_is_active := Some False\<rparr>"
        "state_after example_database
           (update_menu_categories example_database (Some 2) (\<lambda>r. menu_categories_id r = 20)
              (\<lambda>r. r\<lparr>menu_categories_is_active := Some False\<rparr>) 778)"
        "\<lambda>r. False" id example_database
        "\<lambda>r. orders_id r = 40" "\<lambda>r. r\<lparr>orders_status := Some ready\<rparr>"
        "state_after example_database
           (update_orders example_database (Some 2) (\<lambda>r. orders_id r = 40)
              (\<lambda>r. r\<lparr>orders_status := Some ready\<rparr>) 778)"]
    updated_at_set_on_every_update
      [of example_database "Some 1" "\<lambda>r. False" id 778 example_database
        "\<lambda>r. False" id example_database
        "\<lambda>r. menu_items_id r = 30" "\<lambda>r. r\<lparr>menu_items_price := 1500, updated_at := Some 1\<rparr>"
        "state_after example_database
           (update_menu_items example_database (Some 1) (\<lambda>r. menu_items_id r = 30)
              (\<lambda>r. r\<lparr>menu_items_price := 1500, updated_at := Some 1\<rparr>) 778)"
        "\<lambda>r. False" id example_database]
  by (simp add: example_eval update_profiles_def update_menu_categories_def update_menu_items_def
      update_orders_def profiles_policies_def menu_categories_policies_def menu_items_policies_def
      orders_policies_def)

section \<open>Failed calls\<close>

lemma after_call_failed:
  "failed r \<Longrightarrow> \<exists>message. after_call r failure success then_do reload = [Toast (failure message)]"
  by (cases r) (auto simp: after_call_def split: option.splits)

lemma after_call_succeeded:
  "\<not> failed r \<Longrightarrow> after_call r failure success then_do reload = [Toast success] @ then_do @ reload"
  by (cases r) (auto simp: after_call_def split: option.splits)

lemma fetchMenuData_failed:
  assumes "failed itemsResponse \<or> failed categoriesResponse"
  shows "fetchMenuData itemsResponse categoriesResponse =
           [Call SelectMenuItems, Call SelectMenuCategories,
            Toast (error_toast (utf16 ''Failed to fetch menu data'')), SetLoading False]"
  using assms
  by (cases itemsResponse; cases categoriesResponse) (auto simp: fetchMenuData_def)

lemma fetchMenuData_succeeded:
  assumes "\<not> failed itemsResponse" and "\<not> failed categoriesResponse"
  shows "error_toasts (fetchMenuData itemsResponse categoriesResponse) = []"
  using assms
  by (cases itemsResponse; cases categoriesResponse)
     (auto simp: fetchMenuData_def error_toasts_def)

lemma error_toast_variant [simp]: "toast_variant (error_toast d) = destructive"
  by (simp add: error_toast_def)

lemma success_toast_variant [simp]: "toast_variant (success_toast d) = default_variant"
  by (simp add: success_toast_def)

text \<open>
  On the menu management screen a run in which a call fails shows exactly one error toast
  and issues no call after it: the failed write is followed by nothing, and a failed reload
  leaves the write before it in place.
\<close>

lemma menu_management_reports_a_failure_once:
  fixes itemsResponse :: "'n MenuItem list response"
  assumes "failed r \<or> failed itemsResponse \<or> failed categoriesResponse"
  shows "length (error_toasts (handleSubmit parseFloat fd editingItem r itemsResponse
                                categoriesResponse)) = 1"
    and "calls_after_error (handleSubmit parseFloat fd editingItem r itemsResponse
                              categoriesResponse) = []"
    and "length (error_toasts (handleDelete True i r itemsResponse categoriesResponse)) = 1"
    and "calls_after_error (handleDelete True i r itemsResponse categoriesResponse) = []"
    and "length (error_toasts (toggleAvailability item r itemsResponse categoriesResponse)) = 1"
    and "calls_after_error (toggleAvailability item r itemsResponse categoriesResponse) = []"
proof -
  have reload: "length (error_toasts (fetchMenuData itemsResponse categoriesResponse)) = 1 \<and>
      calls_after_error (fetchMenuData itemsResponse categoriesResponse) = []"
    if "\<not> failed r"
    using that assms
    by (simp add: fetchMenuData_failed error_toasts_def calls_after_error_def calls_def)
  have *: "length (error_toasts (Call q # after_call r failure (success_toast d) then_do
              (fetchMenuData itemsResponse categoriesResponse))) = 1 \<and>
           calls_after_error (Call q # after_call r failure (success_toast d) then_do
              (fetchMenuData itemsResponse categoriesResponse)) = []"
    if "\<And>m. is_error_toast (Toast (failure m))" and "list_all (\<lambda>e. \<not> is_error_toast e \<and> \<not> is_call e) then_do"
    for q :: "'n request" and failure d and then_do :: "'n effect list"
  proof (cases "failed r")
    case True
    then obtain m where "after_call r failure (success_toast d) then_do
        (fetchMenuData itemsResponse categoriesResponse) = [Toast (failure m)]"
      using after_call_failed by blast
    with that show ?thesis by (simp add: error_toasts_def calls_after_error_def calls_def)
  next
    case False
    have skip: "filter is_error_toast then_do = []" "dropWhile (\<lambda>e. \<not> is_error_toast e) (then_do @ xs) = dropWhile (\<lambda>e. \<not> is_error_toast e) xs" for xs
      using that(2) by (auto simp: list_all_iff filter_empty_conv)
    from False reload show ?thesis
      by (simp add: after_call_succeeded error_toasts_def calls_after_error_def calls_def skip)
  qed
  show "length (error_toasts (handleSubmit parseFloat fd editingItem r itemsResponse
                                categoriesResponse)) = 1"
    and "calls_after_error (handleSubmit parseFloat fd editingItem r itemsResponse
                              categoriesResponse) = []"
    using *[of error_toast "[SetDialogOpen False, SetEditingItem None] @ resetForm"]
    by (auto simp: handleSubmit_def resetForm_def split: option.splits)
  show "length (error_toasts (handleDelete True i r itemsResponse categoriesResponse)) = 1"
    and "calls_after_error (handleDelete True i r itemsResponse categoriesResponse) = []"
    using *[of "\<lambda>message. error_toast (utf16 ''Failed to delete menu item'')" "[]"]
    by (auto simp: handleDelete_def)
  show "length (error_toasts (toggleAvailability item r itemsResponse categoriesResponse)) = 1"
    and "calls_after_error (toggleAvailability item r itemsResponse categoriesResponse) = []"
    using *[of "\<lambda>message. error_toast (utf16 ''Failed to update item availability'')" "[]"]
    by (auto simp: toggleAvailability_def)
qed

lemma fetchMenuData_reports_a_failure_once:
  assumes "failed itemsResponse \<or> failed categoriesResponse"
  shows "length (error_toasts (fetchMenuData itemsResponse categoriesResponse)) = 1"
    and "calls_after_error (fetchMenuData itemsResponse categoriesResponse) = []"
  using assms by (simp_all add: fetchMenuData_failed error_toasts_def calls_after_error_def calls_def)

text \<open>
  The dashboard looks at no \<^verbatim>\<open>error\<close> field: when no promise rejects it issues all four
  queries and shows no toast, whatever the responses say.
\<close>

lemma dashboard_reads_no_error:
  "error_toasts (fetchDashboardStats today (Resolved d1 e1) (Resolved d2 e2) (Resolved d3 e3)
                   (Resolved d4 e4)) = [] \<and>
   calls (fetchDashboardStats today (Resolved d1 e1) (Resolved d2 e2) (Resolved d3 e3)
            (Resolved d4 e4)) =
     [Call CountOrders, Call CountPendingOrders, Call (SelectTodayOrders today),
      Call (SelectTodayOrderItems today)]"
  by (simp add: fetchDashboardStats_def error_toasts_def calls_def)

lemma dashboard_reports_a_rejection:
  "length (error_toasts (fetchDashboardStats today (Rejected m) r2 r3 r4)) = 1 \<and>
   calls_after_error (fetchDashboardStats today (Rejected m) r2 r3 r4) = []"
  by (simp add: fetchDashboardStats_def dashboard_failed_def error_toasts_def calls_after_error_def calls_def)

text \<open>
  Claim C8 asks of every data-access operation that a failed call shows exactly one error
  notification and is followed by no further call. The dashboard's fetch does otherwise when
  a call fails by its response: here the first query is refused, no toast is shown, the
  three other queries are issued, and the statistics are set as if there were no orders.
\<close>

theorem dashboard_shows_no_toast_for_a_failed_query:
  "failed (Resolved None (Some (utf16 ''permission denied'')) :: nat response) \<and>
   error_toasts
     (fetchDashboardStats (utf16 ''2024-05-01'')
        (Resolved None (Some (utf16 ''permission denied''))) (Resolved (Some 2) None)
        (Resolved (Some [1250, 900 :: int]) None) (Resolved (Some []) None)) = [] \<and>
   fetchDashboardStats (utf16 ''2024-05-01'')
     (Resolved None (Some (utf16 ''permission denied''))) (Resolved (Some 2) None)
     (Resolved (Some [1250, 900 :: int]) None) (Resolved (Some []) None) =
     [Call CountOrders, Call CountPendingOrders, Call (SelectTodayOrders (utf16 ''2024-05-01'')),
      Call (SelectTodayOrderItems (utf16 ''2024-05-01'')),
      SetStats \<lparr>totalOrders = 0, pendingOrders = 2, todayRevenue = 2150, popularDishes = []\<rparr>,
      SetLoading False]"
  by (simp add: fetchDashboardStats_def error_toasts_def popular_dishes_def dishCounts_def
      entries_def sort_by_def)

section \<open>Popular dishes\<close>

lemma get_property_plain:
  "\<not> inherited k \<Longrightarrow>
     get_property obj k = (case map_of obj k of None \<Rightarrow> Undefined | Some v \<Rightarrow> Value v)"
  by (simp add: get_property_def inherited_def split: option.splits)

lemma set_property_plain: "\<not> inherited k \<Longrightarrow> set_property obj k v = AList.update k v obj"
  by (simp add: set_property_def inherited_def)

lemma ordered_quantity_snoc:
  "ordered_quantity (items @ [x]) n =
     ordered_quantity items n + (if orderItem_menu_items x = Some n then orderItem_quantity x else 0)"
  by (simp add: ordered_quantity_def)

lemma dishCounts_snoc: "dishCounts (items @ [x]) = count_dish (dishCounts items) x"
  by (simp add: dishCounts_def)

lemma ordered_quantity_unnamed:
  "\<forall>item \<in> set items. orderItem_menu_items item \<noteq> Some n \<Longrightarrow> ordered_quantity items n = 0"
  by (simp add: ordered_quantity_def filter_False)

lemma dishCounts_plain:
  assumes "\<forall>item \<in> set items. \<forall>n. orderItem_menu_items item = Some n \<longrightarrow> \<not> inherited n"
  shows "map_of (dishCounts items) n =
           (if n \<noteq> [] \<and> (\<exists>item \<in> set items. orderItem_menu_items item = Some n)
            then Some (Num (ordered_quantity items n)) else None)"
  using assms
proof (induction items arbitrary: n rule: rev_induct)
  case Nil
  then show ?case by (simp add: dishCounts_def)
next
  case (snoc x items)
  then have IH: "\<And>n. map_of (dishCounts items) n =
           (if n \<noteq> [] \<and> (\<exists>item \<in> set items. orderItem_menu_items item = Some n)
            then Some (Num (ordered_quantity items n)) else None)"
    by simp
  show ?case
  proof (cases "orderItem_menu_items x")
    case None
    then show ?thesis
      by (simp add: dishCounts_snoc count_dish_def IH ordered_quantity_snoc)
  next
    case (Some m)
    show ?thesis
    proof (cases "m = []")
      case True
      with Some show ?thesis
        by (auto simp: dishCounts_snoc count_dish_def IH ordered_quantity_snoc)
    next
      case False
      from snoc.prems Some have plain: "\<not> inherited m" by simp
      have new: "or_zero_plus (get_property (dishCounts items) m) (orderItem_quantity x) =
          Num (ordered_quantity items m + orderItem_quantity x)"
        using False
        by (auto simp: get_property_plain[OF plain] IH or_zero_plus_def ordered_quantity_unnamed)
      show ?thesis
        using Some False
        by (auto simp: dishCounts_snoc count_dish_def set_property_plain[OF plain] new
            update_conv' IH ordered_quantity_snoc)
    qed
  qed
qed

lemma distinct_set_property: "distinct (map fst obj) \<Longrightarrow> distinct (map fst (set_property obj k v))"
  by (simp add: set_property_def distinct_update)

lemma distinct_dishCounts: "distinct (map fst (dishCounts items))"
proof (induction items rule: rev_induct)
  case Nil
  then show ?case by (simp add: dishCounts_def)
next
  case (snoc x items)
  then show ?case
    by (simp add: dishCounts_snoc count_dish_def distinct_set_property split: option.splits)
qed

lemma mset_entries: "mset (entries obj) = mset obj"
  by (simp add: entries_def)

lemma mset_insert_sorted: "mset (insert_sorted cmp x ys) = add_mset x (mset ys)"
  by (induction ys) simp_all

lemma mset_sort_by: "mset (sort_by cmp xs) = mset xs"
  by (induction xs) (simp_all add: sort_by_def mset_insert_sorted)

lemma mset_popular:
  "mset (sort_by compare_counts (entries (dishCounts items))) = mset (dishCounts items)"
  by (simp add: mset_sort_by mset_entries)

lemma insert_sorted_descending:
  assumes "sorted_wrt (\<lambda>a b. num (snd b) \<le> num (snd a)) ys"
    and "\<forall>y \<in> set (x # ys). \<exists>n. snd y = Num n"
  shows "sorted_wrt (\<lambda>a b. num (snd b) \<le> num (snd a)) (insert_sorted compare_counts x ys)"
  using assms
proof (induction ys)
  case Nil
  then show ?case by simp
next
  case (Cons y ys)
  from Cons.prems(2) obtain a b where ab: "snd x = Num a" "snd y = Num b" by auto
  show ?case
  proof (cases "b \<le> a")
    case True
    with ab Cons.prems(1) show ?thesis
      by (auto simp: compare_counts_def)
  next
    case False
    with ab have step: "insert_sorted compare_counts x (y # ys) =
        y # insert_sorted compare_counts x ys"
      by (simp add: compare_counts_def)
    have members: "set (insert_sorted compare_counts x ys) = insert x (set ys)"
      by (metis mset_insert_sorted set_mset_add_mset_insert set_mset_mset)
    have "sorted_wrt (\<lambda>a b. num (snd b) \<le> num (snd a)) (insert_sorted compare_counts x ys)"
      using Cons by simp
    moreover have "\<forall>z \<in> set (insert_sorted compare_counts x ys). num (snd z) \<le> num (snd y)"
      unfolding members using False ab Cons.prems(1) by auto
    ultimately show ?thesis unfolding step by simp
  qed
qed

lemma sort_by_descending:
  assumes "\<forall>y \<in> set xs. \<exists>n. snd y = Num n"
  shows "sorted_wrt (\<lambda>a b. num (snd b) \<le> num (snd a)) (sort_by compare_counts xs)"
  using assms
proof (induction xs)
  case Nil
  then show ?case by (simp add: sort_by_def)
next
  case (Cons x xs)
  then have "sorted_wrt (\<lambda>a b. num (snd b) \<le> num (snd a)) (sort_by compare_counts xs)"
    by simp
  moreover have "\<forall>y \<in> set (x # sort_by compare_counts xs). \<exists>n. snd y = Num n"
    using Cons.prems by (metis mset_sort_by set_mset_mset list.set_intros(1,2) set_ConsD)
  ultimately have "sorted_wrt (\<lambda>a b. num (snd b) \<le> num (snd a))
      (insert_sorted compare_counts x (sort_by compare_counts xs))"
    by (rule insert_sorted_descending)
  then show ?case by (simp add: sort_by_def)
qed

lemma popular_dishes_subset:
  "set (popular_dishes items) \<subseteq> set (dishCounts items)"
proof -
  have "set (popular_dishes items) \<subseteq> set (sort_by compare_counts (entries (dishCounts items)))"
    by (simp add: popular_dishes_def set_take_subset)
  also have "\<dots> = set (dishCounts items)"
    by (metis mset_popular set_mset_mset)
  finally show ?thesis .
qed

text \<open>
  When no line item names a dish by a name that \<^verbatim>\<open>Object.prototype\<close> defines, the list
  is as intended: at most five entries, one per dish name, each with the added-up quantity of
  the line items that name the dish, in non-increasing order of that quantity; a line item
  without a name counts nowhere.
\<close>

lemma popular_dishes_plain:
  assumes "\<forall>item \<in> set items. \<forall>n. orderItem_menu_items item = Some n \<longrightarrow> \<not> inherited n"
  shows "length (popular_dishes items) \<le> 5"
    and "distinct (map fst (popular_dishes items))"
    and "\<forall>e \<in> set (popular_dishes items).
           fst e \<noteq> [] \<and> (\<exists>item \<in> set items. orderItem_menu_items item = Some (fst e)) \<and>
           snd e = Num (ordered_quantity items (fst e))"
    and "sorted_wrt (\<lambda>a b. ordered_quantity items (fst b) \<le> ordered_quantity items (fst a))
           (popular_dishes items)"
proof -
  let ?all = "sort_by compare_counts (entries (dishCounts items))"
  show "length (popular_dishes items) \<le> 5"
    by (simp add: popular_dishes_def)
  have "mset (map fst ?all) = mset (map fst (dishCounts items))"
    using mset_popular by (metis mset_map)
  then have "distinct (map fst ?all)"
    using distinct_dishCounts by (metis mset_eq_imp_distinct_iff)
  then show "distinct (map fst (popular_dishes items))"
    by (simp add: popular_dishes_def take_map[symmetric] distinct_take)
  have counted: "fst e \<noteq> [] \<and> (\<exists>item \<in> set items. orderItem_menu_items item = Some (fst e)) \<and>
      snd e = Num (ordered_quantity items (fst e))" if "e \<in> set (dishCounts items)" for e
  proof -
    from that have "map_of (dishCounts items) (fst e) = Some (snd e)"
      using distinct_dishCounts by (metis map_of_is_SomeI prod.collapse)
    then show ?thesis
      unfolding dishCounts_plain[OF assms] by (simp split: if_splits)
  qed
  then show listed: "\<forall>e \<in> set (popular_dishes items).
           fst e \<noteq> [] \<and> (\<exists>item \<in> set items. orderItem_menu_items item = Some (fst e)) \<and>
           snd e = Num (ordered_quantity items (fst e))"
    using popular_dishes_subset by blast
  have "\<forall>y \<in> set (entries (dishCounts items)). \<exists>n. snd y = Num n"
    using counted by (metis mset_entries set_mset_mset)
  then have "sorted_wrt (\<lambda>a b. num (snd b) \<le> num (snd a)) ?all"
    by (rule sort_by_descending)
  then have "sorted_wrt (\<lambda>a b. num (snd b) \<le> num (snd a)) (popular_dishes items)"
    by (simp add: popular_dishes_def sorted_wrt_take)
  then show "sorted_wrt (\<lambda>a b. ordered_quantity items (fst b) \<le> ordered_quantity items (fst a))
           (popular_dishes items)"
    by (rule sorted_wrt_mono_rel[rotated]) (use listed in auto)
qed

lemma popular_dishes_example:
  "popular_dishes
     [example_orderItem ''Pizza'' 2, example_orderItem ''Tajine'' 3,
      example_orderItem ''Pizza'' 2, example_orderItem ''7'' 1, example_orderItem ''10'' 1,
      example_orderItem ''Couscous'' 1, example_orderItem ''Salad'' 12,
      \<lparr>orderItem_menu_item_id = None, orderItem_quantity = 40, orderItem_menu_items = None\<rparr>] =
     [(utf16 ''Salad'', Num 12), (utf16 ''Pizza'', Num 4), (utf16 ''Tajine'', Num 3),
      (utf16 ''7'', Num 1), (utf16 ''10'', Num 1)]"
  by (simp add: example_orderItem_def popular_dishes_def dishCounts_def count_dish_def utf16_def
      set_property_def get_property_def prototype_functions_def or_zero_plus_def entries_def
      array_index_def decimal_value_def sort_by_def compare_counts_def)

text \<open>
  Claim C9 says that the list adds up the quantities per dish name, for every set of line
  items. The code does not when a dish bears a name that \<^verbatim>\<open>Object.prototype\<close> defines.
  For a dish named \<^verbatim>\<open>constructor\<close>, ordered twice, \<^verbatim>\<open>dishCounts[dishName] || 0\<close> is
  the inherited function and not \<^verbatim>\<open>0\<close>, and the entry's count is a text, the function's
  source followed by the digit, where the declared type of the count is a number. A dish
  named \<^verbatim>\<open>__proto__\<close>, ordered four times, has no entry at all.
\<close>

theorem popular_dishes_miscounts_inherited_names:
  "ordered_quantity [example_orderItem ''constructor'' 2] (utf16 ''constructor'') = 2 \<and>
   popular_dishes [example_orderItem ''constructor'' 2] =
     [(utf16 ''constructor'', Str (utf16 ''function Object() { [native code] }2''))] \<and>
   ordered_quantity [example_orderItem ''__proto__'' 4] (utf16 ''__proto__'') = 4 \<and>
   popular_dishes [example_orderItem ''__proto__'' 4] = []"
  by (simp add: example_orderItem_def popular_dishes_def dishCounts_def count_dish_def utf16_def
      set_property_def get_property_def prototype_functions_def or_zero_plus_def native_code_def
      number_to_string_def digits.simps entries_def array_index_def sort_by_def
      ordered_quantity_def)

section \<open>The form's payload\<close>

lemma split_from_not_Nil: "split_from sep cur s \<noteq> []"
  by (induction s arbitrary: cur) simp_all

lemma split_from_join: "join (split_from sep cur s) [sep] = rev cur @ s"
proof (induction s arbitrary: cur)
  case Nil
  then show ?case by simp
next
  case (Cons c s)
  show ?case
  proof (cases "c = sep")
    case True
    obtain p ps where "split_from sep [] s = p # ps"
      using split_from_not_Nil[of sep "[]" s] by (auto simp: neq_Nil_conv)
    with Cons[of "[]"] True show ?thesis by simp
  next
    case False
    with Cons[of "c # cur"] show ?thesis by simp
  qed
qed

lemma split_from_no_separator:
  "sep \<notin> set cur \<Longrightarrow> p \<in> set (split_from sep cur s) \<Longrightarrow> sep \<notin> set p"
proof (induction s arbitrary: cur)
  case Nil
  then show ?case by simp
next
  case (Cons c s)
  show ?case
  proof (cases "c = sep")
    case True
    with Cons.prems have "p = rev cur \<or> p \<in> set (split_from sep [] s)" by simp
    then show ?thesis
    proof
      assume "p = rev cur"
      with Cons.prems(1) show ?thesis by simp
    next
      assume "p \<in> set (split_from sep [] s)"
      with Cons.IH[of "[]"] show ?thesis by simp
    qed
  next
    case False
    with Cons.prems have "sep \<notin> set (c # cur)" and "p \<in> set (split_from sep (c # cur) s)"
      by simp_all
    then show ?thesis by (rule Cons.IH)
  qed
qed

lemma split_string_join: "join (split_string s sep) [sep] = s"
  by (simp add: split_string_def split_from_join)

lemma split_string_no_separator: "p \<in> set (split_string s sep) \<Longrightarrow> sep \<notin> set p"
  unfolding split_string_def by (rule split_from_no_separator[of sep "[]"]) simp_all

lemma dropWhile_decompose: "\<exists>a. s = a @ dropWhile P s \<and> list_all P a"
proof
  show "s = takeWhile P s @ dropWhile P s \<and> list_all P (takeWhile P s)"
    by (auto simp: list_all_iff dest: set_takeWhileD)
qed

lemma trim_decompose:
  "\<exists>a b. s = a @ trim s @ b \<and> list_all is_white_space a \<and> list_all is_white_space b"
proof -
  obtain a where a: "s = a @ dropWhile is_white_space s" "list_all is_white_space a"
    using dropWhile_decompose by blast
  obtain b where b: "rev (dropWhile is_white_space s) =
      b @ dropWhile is_white_space (rev (dropWhile is_white_space s))" "list_all is_white_space b"
    using dropWhile_decompose by blast
  from b(1) have "dropWhile is_white_space s = trim s @ rev b"
    by (metis rev_append rev_rev_ident trim_def)
  with a b(2) have "s = a @ trim s @ rev b \<and> list_all is_white_space a \<and> list_all is_white_space (rev b)"
    by (simp add: list_all_iff)
  then show ?thesis by blast
qed

lemma trim_ends:
  assumes "trim s \<noteq> []"
  shows "\<not> is_white_space (hd (trim s))" and "\<not> is_white_space (last (trim s))"
proof -
  let ?d = "dropWhile is_white_space s"
  let ?e = "dropWhile is_white_space (rev ?d)"
  from assms have e: "?e \<noteq> []" by (simp add: trim_def)
  then have "\<not> is_white_space (hd ?e)" by (rule hd_dropWhile)
  then show "\<not> is_white_space (last (trim s))"
    by (simp add: trim_def last_rev)
  from e have d: "?d \<noteq> []" by (rule contrapos_nn) (auto dest: set_dropWhileD)
  then have first: "\<not> is_white_space (hd ?d)" by (rule hd_dropWhile)
  from e obtain x where "x \<in> set (rev ?d)" and "\<not> is_white_space x"
    unfolding dropWhile_eq_Nil_conv by blast
  then have "last ?e = last (rev ?d)" by (rule dropWhile_last)
  then have "hd (trim s) = hd ?d" by (simp add: trim_def hd_rev last_rev)
  with first show "\<not> is_white_space (hd (trim s))" by simp
qed

text \<open>
  Claim C10. In the payload of a submitted form an empty \<^verbatim>\<open>image_url\<close> is null, an empty
  \<^verbatim>\<open>category_id\<close> is null and an empty \<^verbatim>\<open>allergens\<close> is null; a non-empty
  \<^verbatim>\<open>allergens\<close> is cut at its commas (the pieces, joined by commas, give the string back,
  and none holds a comma) and every piece is trimmed, that is, stripped of white space at both
  ends and of nothing else. The update of an edited item and the insert of a new one send
  this same payload.
\<close>

theorem payload_maps_empty_to_null_and_splits_allergens:
  "itemData_image_url (itemData parseFloat fd) =
     (if formData_image_url fd = [] then None else Some (formData_image_url fd)) \<and>
   itemData_category_id (itemData parseFloat fd) =
     (if formData_category_id fd = [] then None else Some (formData_category_id fd)) \<and>
   (formData_allergens fd = [] \<longrightarrow> itemData_allergens (itemData parseFloat fd) = None) \<and>
   (formData_allergens fd \<noteq> [] \<longrightarrow>
      (\<exists>parts. parts \<noteq> [] \<and> join parts [0x2C] = formData_allergens fd \<and>
               (\<forall>p \<in> set parts. 0x2C \<notin> set p) \<and>
               itemData_allergens (itemData parseFloat fd) = Some (map trim parts))) \<and>
   (\<exists>a b. p = a @ trim p @ b \<and> list_all is_white_space a \<and> list_all is_white_space b) \<and>
   (trim p \<noteq> [] \<longrightarrow> \<not> is_white_space (hd (trim p)) \<and> \<not> is_white_space (last (trim p))) \<and>
   hd (handleSubmit parseFloat fd (Some item) r itemsResponse categoriesResponse) =
     Call (UpdateMenuItem (itemData parseFloat fd) (MenuItem_id item)) \<and>
   hd (handleSubmit parseFloat fd None r itemsResponse categoriesResponse) =
     Call (InsertMenuItem (itemData parseFloat fd))"
proof -
  have "\<exists>parts. parts \<noteq> [] \<and> join parts [0x2C] = formData_allergens fd \<and>
               (\<forall>p \<in> set parts. 0x2C \<notin> set p) \<and>
               itemData_allergens (itemData parseFloat fd) = Some (map trim parts)"
    if "formData_allergens fd \<noteq> []"
  proof (intro exI conjI)
    show "split_string (formData_allergens fd) 0x2C \<noteq> []"
      by (simp add: split_string_def split_from_not_Nil)
    show "join (split_string (formData_allergens fd) 0x2C) [0x2C] = formData_allergens fd"
      by (rule split_string_join)
    show "\<forall>p \<in> set (split_string (formData_allergens fd) 0x2C). 0x2C \<notin> set p"
      using split_string_no_separator by blast
    show "itemData_allergens (itemData parseFloat fd) =
            Some (map trim (split_string (formData_allergens fd) 0x2C))"
      using that by (simp add: itemData_def)
  qed
  moreover have "itemData_image_url (itemData parseFloat fd) =
      (if formData_image_url fd = [] then None else Some (formData_image_url fd))"
    and "itemData_category_id (itemData parseFloat fd) =
      (if formData_category_id fd = [] then None else Some (formData_category_id fd))"
    and "formData_allergens fd = [] \<longrightarrow> itemData_allergens (itemData parseFloat fd) = None"
    by (simp_all add: itemData_def or_null_def)
  moreover have "hd (handleSubmit parseFloat fd (Some item) r itemsResponse categoriesResponse) =
      Call (UpdateMenuItem (itemData parseFloat fd) (MenuItem_id item))"
    and "hd (handleSubmit parseFloat fd None r itemsResponse categoriesResponse) =
      Call (InsertMenuItem (itemData parseFloat fd))"
    by (simp_all add: handleSubmit_def)
  ultimately show ?thesis
    using trim_decompose[of p] trim_ends[of p] by blast
qed

text \<open>The example form, submitted for a new item and for an edited one.\<close>

theorem payload_maps_empty_to_null_and_splits_allergens_example:
  "itemData_image_url (itemData (\<lambda>s. 1250 :: int) example_formData) = None \<and>
   itemData_category_id (itemData (\<lambda>s. 1250 :: int) example_formData) = None \<and>
   itemData_allergens (itemData (\<lambda>s. 1250 :: int) example_formData) =
     Some [utf16 ''nuts'', utf16 ''dairy'', [], utf16 ''gluten''] \<and>
   itemData_allergens
     (itemData (\<lambda>s. 1250 :: int) (example_formData\<lparr>formData_allergens := []\<rparr>)) = None \<and>
   itemData_image_url
     (itemData (\<lambda>s. 1250 :: int) (example_formData\<lparr>formData_image_url := utf16 ''a.png''\<rparr>)) =
     Some (utf16 ''a.png'') \<and>
   trim (utf16 '' dairy '') = utf16 ''dairy'' \<and>
   hd (handleSubmit (\<lambda>s. 1250 :: int) example_formData (Some example_MenuItem)
         (Resolved None None) (Resolved None None) (Resolved None None)) =
     Call (UpdateMenuItem (itemData (\<lambda>s. 1250 :: int) example_formData) (utf16 ''30''))"
  using payload_maps_empty_to_null_and_splits_allergens
      [of "\<lambda>s. 1250 :: int" example_formData "utf16 '' dairy ''" example_MenuItem
        "Resolved None None" "Resolved None None" "Resolved None None"]
    payload_maps_empty_to_null_and_splits_allergens
      [of "\<lambda>s. 1250 :: int" "example_formData\<lparr>formData_allergens := []\<rparr>" "utf16 '' dairy ''"
        example_MenuItem "Resolved None None" "Resolved None None" "Resolved None None"]
  by (simp add: example_formData_def example_MenuItem_def itemData_def or_null_def utf16_def
      split_string_def trim_def is_white_space_def)

end
